theory Spec2Isabelle
  imports Complex_Main "HOL-Library.Sublist" "HOL-Library.AList"
begin

section \<open>Python values and exceptions\<close>

text \<open>
  The field modifier works on the dictionaries that \<^verbatim>\<open>json.load\<close> returns. A loaded JSON
  value is one of the constructors below; an object is an association list read through
  \<^const>\<open>map_of\<close>. Every exception the modelled code can raise is a value of \<open>py_error\<close>;
  all of them are subclasses of Python's \<^verbatim>\<open>Exception\<close>, so an \<^verbatim>\<open>except Exception\<close> clause
  catches each of them.
\<close>

datatype py_error =
    ValueError string
  | KeyError string
  | TypeError
  | AttributeError
  | IndexError
  | EOFError
  | OSError
  | TemplateError
  | UnicodeDecodeError

datatype json =
    JNull
  | JBool bool
  | JInt int
  | JFloat real
  | JStr string
  | JArr "json list"
  | JObj "(string \<times> json) list"

type_synonym pydict = "(string \<times> json) list"

definition ebind :: "'e + 'a \<Rightarrow> ('a \<Rightarrow> 'e + 'b) \<Rightarrow> 'e + 'b" where
  "ebind m f = (case m of Inl e \<Rightarrow> Inl e | Inr x \<Rightarrow> f x)"

subsection \<open>Strings\<close>

text \<open>\<^verbatim>\<open>str.lower()\<close> and \<^verbatim>\<open>str.upper()\<close>, on ASCII letters.\<close>

definition lower_char :: "char \<Rightarrow> char" where
  "lower_char c =
     (case map_of (zip ''ABCDEFGHIJKLMNOPQRSTUVWXYZ'' ''abcdefghijklmnopqrstuvwxyz'') c of
        Some d \<Rightarrow> d | None \<Rightarrow> c)"

definition upper_char :: "char \<Rightarrow> char" where
  "upper_char c =
     (case map_of (zip ''abcdefghijklmnopqrstuvwxyz'' ''ABCDEFGHIJKLMNOPQRSTUVWXYZ'') c of
        Some d \<Rightarrow> d | None \<Rightarrow> c)"

definition py_lower :: "string \<Rightarrow> string" where
  "py_lower s = map lower_char s"

definition py_upper :: "string \<Rightarrow> string" where
  "py_upper s = map upper_char s"

text \<open>\<^verbatim>\<open>sub in s\<close> for two strings: \<open>sub\<close> occurs in \<open>s\<close> as a contiguous block.\<close>

fun str_in :: "string \<Rightarrow> string \<Rightarrow> bool" where
  "str_in sub [] = (sub = [])"
| "str_in sub (c # cs) = (prefix sub (c # cs) \<or> str_in sub cs)"

text \<open>A name between single quotes, as the messages print it.\<close>

definition quoted :: "string \<Rightarrow> string" where
  "quoted s = [CHR 0x27] @ s @ [CHR 0x27]"

subsection \<open>Operations on loaded JSON values\<close>

text \<open>Truthiness, as \<^verbatim>\<open>if v:\<close> and \<^verbatim>\<open>not v\<close> test it.\<close>

fun truthy :: "json \<Rightarrow> bool" where
  "truthy JNull = False"
| "truthy (JBool b) = b"
| "truthy (JInt i) = (i \<noteq> 0)"
| "truthy (JFloat r) = (r \<noteq> 0)"
| "truthy (JStr s) = (s \<noteq> [])"
| "truthy (JArr xs) = (xs \<noteq> [])"
| "truthy (JObj kvs) = (kvs \<noteq> [])"

text \<open>
  \<^verbatim>\<open>k in v\<close> with a string \<open>k\<close>: a key of a dictionary, an element of a list, a substring
  of a string; any other value is not a container and the test raises \<^verbatim>\<open>TypeError\<close>.
\<close>

fun py_in :: "string \<Rightarrow> json \<Rightarrow> py_error + bool" where
  "py_in k (JObj kvs) = Inr (map_of kvs k \<noteq> None)"
| "py_in k (JArr xs) = Inr (JStr k \<in> set xs)"
| "py_in k (JStr s) = Inr (str_in k s)"
| "py_in k v = Inl TypeError"

text \<open>\<^verbatim>\<open>v[k]\<close> with a string \<open>k\<close>.\<close>

fun subscript :: "json \<Rightarrow> string \<Rightarrow> py_error + json" where
  "subscript (JObj kvs) k = (case map_of kvs k of None \<Rightarrow> Inl (KeyError k) | Some v \<Rightarrow> Inr v)"
| "subscript v k = Inl TypeError"

text \<open>\<^verbatim>\<open>v.get(k, default)\<close>: only dictionaries have the method.\<close>

fun py_get :: "json \<Rightarrow> string \<Rightarrow> json \<Rightarrow> py_error + json" where
  "py_get (JObj kvs) k dflt = Inr (case map_of kvs k of None \<Rightarrow> dflt | Some v \<Rightarrow> v)"
| "py_get v k dflt = Inl AttributeError"

text \<open>\<^verbatim>\<open>v.lower()\<close> and \<^verbatim>\<open>v.upper()\<close>: only strings have the methods.\<close>

fun json_lower :: "json \<Rightarrow> py_error + string" where
  "json_lower (JStr s) = Inr (py_lower s)"
| "json_lower v = Inl AttributeError"

fun json_upper :: "json \<Rightarrow> py_error + string" where
  "json_upper (JStr s) = Inr (py_upper s)"
| "json_upper v = Inl AttributeError"

text \<open>
  A value inside an f-string: a string is printed as it is; for the other values Python's
  built-in \<^verbatim>\<open>str\<close> decides, which is the parameter \<open>repr\<close>.
\<close>

fun fstr :: "(json \<Rightarrow> string) \<Rightarrow> json \<Rightarrow> string" where
  "fstr repr (JStr s) = s"
| "fstr repr v = repr v"

section \<open>FieldOperation\<close>

record field_operation =
  action :: string
  field_data :: pydict

definition valid_actions :: "string list" where
  "valid_actions = [''add'', ''update'', ''remove'']"

definition required_fields :: "string list" where
  "required_fields = [''name'', ''type'', ''javaType'']"

text \<open>
  \<^verbatim>\<open>all(field in d for field in required_fields)\<close>: the generator stops at the first
  missing name, and a membership test that raises ends it with that exception.
\<close>

fun all_in :: "string list \<Rightarrow> json \<Rightarrow> py_error + bool" where
  "all_in [] v = Inr True"
| "all_in (k # ks) v =
     (case py_in k v of
        Inl e \<Rightarrow> Inl e
      | Inr b \<Rightarrow> if b then all_in ks v else Inr False)"

definition validate :: "field_operation \<Rightarrow> py_error + unit" where
  "validate op =
    (if action op \<notin> set valid_actions then
       Inl (ValueError (''Invalid action: '' @ action op @
              ''. Must be one of ['add', 'update', 'remove']''))
     else if action op = ''add'' then
       (case all_in required_fields
               (case map_of (field_data op) ''field'' of None \<Rightarrow> JObj [] | Some v \<Rightarrow> v) of
          Inl e \<Rightarrow> Inl e
        | Inr ok \<Rightarrow>
            if \<not> ok then
              Inl (ValueError ''Add operation requires: ['name', 'type', 'javaType']'')
            else Inr ())
     else if action op = ''update'' then
       (if map_of (field_data op) ''field_name'' = None then
          Inl (ValueError (''Update operation requires '' @ quoted ''field_name''))
        else if map_of (field_data op) ''changes'' = None then
          Inl (ValueError (''Update operation requires '' @ quoted ''changes''))
        else Inr ())
     else if action op = ''remove'' then
       (if map_of (field_data op) ''field_name'' = None then
          Inl (ValueError (''Remove operation requires '' @ quoted ''field_name''))
        else Inr ())
     else Inr ())"

text \<open>The constructor \<^verbatim>\<open>FieldOperation(action, field_data)\<close>.\<close>

definition FieldOperation :: "string \<Rightarrow> pydict \<Rightarrow> py_error + field_operation" where
  "FieldOperation a d =
     (let op = \<lparr>action = py_lower a, field_data = d\<rparr>
      in case validate op of Inl e \<Rightarrow> Inl e | Inr u \<Rightarrow> Inr op)"

section \<open>The project tree\<close>

text \<open>
  The files under the project root: a regular file with its text, or a directory with its
  entries. A directory is an association list read through \<^const>\<open>map_of\<close>, so an entry
  hidden by an earlier one of the same name does not exist.
\<close>

datatype node = File string | Dir "(string \<times> node) list"

type_synonym path = "string list"

fun lookup :: "node \<Rightarrow> path \<Rightarrow> node option" where
  "lookup n [] = Some n"
| "lookup (File c) (k # ks) = None"
| "lookup (Dir es) (k # ks) = (case map_of es k of None \<Rightarrow> None | Some n \<Rightarrow> lookup n ks)"

text \<open>The entries a directory scan yields.\<close>

definition entries :: "(string \<times> node) list \<Rightarrow> (string \<times> node) list" where
  "entries es = filter (\<lambda>(k, n). map_of es k = Some n) es"

definition migration_path :: path where
  "migration_path = [''src'', ''main'', ''resources'', ''db'', ''migration'']"

section \<open>DependencyChecker\<close>

definition is_primary_key :: "json \<Rightarrow> py_error + bool" where
  "is_primary_key field_name =
     (case json_lower field_name of
        Inl e \<Rightarrow> Inl e
      | Inr l \<Rightarrow> Inr (l \<in> set [''id'', ''uuid'']))"

text \<open>
  A file opened in text mode, as \<^verbatim>\<open>open(migration_file, 'r')\<close> does: the bytes are
  decoded with the codec of the locale, which raises on bytes that are no text in its
  encoding, and in the decoded text every carriage return, with the line feed after it if
  there is one, is read as one line feed. The codec is the parameter \<open>decode\<close>. Opening a
  directory raises.
\<close>

fun universal_newlines :: "string \<Rightarrow> string" where
  "universal_newlines [] = []"
| "universal_newlines (c # cs) =
     (if c = CHR 0x0D
      then CHR 0x0A #
             (case cs of
                [] \<Rightarrow> []
              | d # ds \<Rightarrow> if d = CHR 0x0A then universal_newlines ds else universal_newlines cs)
      else c # universal_newlines cs)"

definition read_text :: "(string \<Rightarrow> py_error + string) \<Rightarrow> node \<Rightarrow> py_error + string" where
  "read_text decode n =
     (case n of
        Dir es \<Rightarrow> Inl OSError
      | File raw \<Rightarrow> ebind (decode raw) (\<lambda>decoded. Inr (universal_newlines decoded)))"

text \<open>
  The loop over the migration files: a file whose reading raises is skipped, and the first
  file whose text contains the pattern ends the loop.
\<close>

fun reference_in_files ::
  "(string \<Rightarrow> py_error + string) \<Rightarrow> string \<Rightarrow> (string \<times> node) list \<Rightarrow> bool" where
  "reference_in_files decode reference_pattern [] = False"
| "reference_in_files decode reference_pattern ((name, n) # rest) =
     (case read_text decode n of
        Inl e \<Rightarrow> reference_in_files decode reference_pattern rest
      | Inr content \<Rightarrow>
          if str_in reference_pattern content then True
          else reference_in_files decode reference_pattern rest)"

text \<open>
  \<^verbatim>\<open>migration_dir.glob("*.sql")\<close> yields nothing when the path is a regular file.
\<close>

definition has_foreign_key_references ::
  "(json \<Rightarrow> string) \<Rightarrow> (string \<Rightarrow> py_error + string) \<Rightarrow> json \<Rightarrow> json \<Rightarrow> node \<Rightarrow>
   py_error + bool" where
  "has_foreign_key_references repr decode field_name service_info project_root =
     (case lookup project_root migration_path of
        None \<Rightarrow> Inr False
      | Some migration_dir \<Rightarrow>
          (case subscript service_info ''table'' of
             Inl e \<Rightarrow> Inl e
           | Inr table_name \<Rightarrow>
               (let reference_pattern =
                      ''REFERENCES '' @ fstr repr table_name @ ''('' @ fstr repr field_name @ '')''
                in case migration_dir of
                     File c \<Rightarrow> Inr False
                   | Dir es \<Rightarrow>
                       Inr (reference_in_files decode reference_pattern
                              (filter (\<lambda>(name, n). suffix ''.sql'' name) (entries es))))))"

definition is_type_change_safe :: "json \<Rightarrow> py_error + bool" where
  "is_type_change_safe new_type =
     (case json_upper new_type of
        Inl e \<Rightarrow> Inl e
      | Inr u \<Rightarrow> Inr (str_in ''VARCHAR'' u))"

definition validate_operation_safety ::
  "(json \<Rightarrow> string) \<Rightarrow> (string \<Rightarrow> py_error + string) \<Rightarrow> field_operation \<Rightarrow> json \<Rightarrow> node \<Rightarrow>
   py_error + string list" where
  "validate_operation_safety repr decode op service_info project_root =
    (if action op = ''remove'' then
       ebind (subscript (JObj (field_data op)) ''field_name'') (\<lambda>field_name.
       ebind (is_primary_key field_name) (\<lambda>pk.
       ebind (has_foreign_key_references repr decode field_name service_info project_root) (\<lambda>fk.
         Inr ((if pk then [''Cannot remove primary key field: '' @ fstr repr field_name] else []) @
              (if fk then [''Field '' @ fstr repr field_name @
                             '' is referenced by foreign keys in other tables''] else [])))))
     else if action op = ''update'' then
       ebind (subscript (JObj (field_data op)) ''field_name'') (\<lambda>field_name.
       ebind (subscript (JObj (field_data op)) ''changes'') (\<lambda>changes.
       ebind (is_primary_key field_name) (\<lambda>pk.
       ebind (py_in ''type'' changes) (\<lambda>has_type.
       ebind (if has_type
              then ebind (subscript changes ''type'') (\<lambda>new_type.
                   ebind (is_type_change_safe new_type) (\<lambda>safe. Inr (\<not> safe)))
              else Inr False) (\<lambda>lossy.
         Inr ((if pk then [''Cannot modify primary key field: '' @ fstr repr field_name] else []) @
              (if lossy then [''Type change for field '' @ fstr repr field_name @
                                '' may cause data loss''] else [])))))))
     else Inr [])"

subsection \<open>A type that names VARCHAR\<close>

text \<open>
  Two characters are the same letter when they are equal or the first is the small form of
  the second. A type names \<^verbatim>\<open>VARCHAR\<close> when seven consecutive characters of it are, one
  by one, the same letters as those of that word.
\<close>

definition same_letter :: "char \<Rightarrow> char \<Rightarrow> bool" where
  "same_letter c d =
     (c = d \<or> (c, d) \<in> set (zip ''abcdefghijklmnopqrstuvwxyz'' ''ABCDEFGHIJKLMNOPQRSTUVWXYZ''))"

definition names_varchar :: "string \<Rightarrow> bool" where
  "names_varchar t = (\<exists>w \<in> set (sublists t). list_all2 same_letter w ''VARCHAR'')"

subsection \<open>An example codec\<close>

text \<open>
  The ASCII codec: it raises on every byte from 128 on. On a file of ASCII bytes every codec
  that extends ASCII, as UTF-8 and Latin-1 do, returns the same text.
\<close>

definition decode_ascii :: "string \<Rightarrow> py_error + string" where
  "decode_ascii raw =
     (if list_all (\<lambda>c. (of_char c :: nat) < 128) raw then Inr raw
      else Inl UnicodeDecodeError)"

section \<open>Required attributes, in the specification's words\<close>

text \<open>
  The field descriptor of an Add payload, and the required attributes that a payload of
  each variant lacks: \<^verbatim>\<open>name\<close>, \<^verbatim>\<open>type\<close> and \<^verbatim>\<open>javaType\<close> inside the field
  descriptor for Add, \<^verbatim>\<open>field_name\<close> and \<^verbatim>\<open>changes\<close> for Update, \<^verbatim>\<open>field_name\<close>
  for Remove.
\<close>

definition field_descriptor :: "pydict \<Rightarrow> pydict" where
  "field_descriptor d = (case map_of d ''field'' of Some (JObj fd) \<Rightarrow> fd | _ \<Rightarrow> [])"

definition missing_attributes :: "string \<Rightarrow> pydict \<Rightarrow> string list" where
  "missing_attributes a d =
     (if a = ''add'' then
        filter (\<lambda>k. map_of (field_descriptor d) k = None) [''name'', ''type'', ''javaType'']
      else if a = ''update'' then filter (\<lambda>k. map_of d k = None) [''field_name'', ''changes'']
      else if a = ''remove'' then filter (\<lambda>k. map_of d k = None) [''field_name'']
      else [])"

section \<open>Example inputs\<close>

definition orders_tree :: node where
  "orders_tree =
     Dir [(''src'', Dir [(''main'', Dir [(''resources'', Dir [(''db'',
       Dir [(''migration'',
         Dir [(''V2__orders.sql'',
               File ''customer_code BIGINT REFERENCES customers(code)'')])])])])])]"

text \<open>
  Two migration directories whose file contains a reference on disk: in the first the file
  also holds the byte of an accented letter in Latin-1, in the second the referenced field
  name holds a carriage return.
\<close>

definition accented_sql :: string where
  "accented_sql =
     ''-- caf'' @ [CHR 0xE9] @ [CHR 0x0A] @ ''customer_code BIGINT REFERENCES customers(code)''"

definition accented_tree :: node where
  "accented_tree =
     Dir [(''src'', Dir [(''main'', Dir [(''resources'', Dir [(''db'',
       Dir [(''migration'', Dir [(''V2__orders.sql'', File accented_sql)])])])])])]"

definition carriage_name :: string where
  "carriage_name = ''co'' @ [CHR 0x0D] @ ''de''"

definition carriage_sql :: string where
  "carriage_sql = ''customer_code BIGINT REFERENCES customers('' @ carriage_name @ '')''"

definition carriage_tree :: node where
  "carriage_tree =
     Dir [(''src'', Dir [(''main'', Dir [(''resources'', Dir [(''db'',
       Dir [(''migration'', Dir [(''V2__orders.sql'', File carriage_sql)])])])])])]"

definition customer_service :: json where
  "customer_service = JObj [(''name'', JStr ''customer''), (''table'', JStr ''customers'')]"

definition note_payload :: pydict where
  "note_payload =
     [(''field'', JObj [(''name'', JStr ''note''), (''type'', JStr ''TEXT''),
                        (''javaType'', JStr ''String'')])]"

section \<open>ImpactAnalyzer\<close>

text \<open>\<^verbatim>\<open>str.capitalize()\<close>: the first character in upper case, the rest in lower case.\<close>

definition py_capitalize :: "string \<Rightarrow> string" where
  "py_capitalize s = (case s of [] \<Rightarrow> [] | c # cs \<Rightarrow> upper_char c # map lower_char cs)"

fun json_capitalize :: "json \<Rightarrow> py_error + string" where
  "json_capitalize (JStr s) = Inr (py_capitalize s)"
| "json_capitalize v = Inl AttributeError"

text \<open>
  A migration record is the dictionary with the keys \<^verbatim>\<open>type\<close>, \<^verbatim>\<open>field_name\<close> and
  \<^verbatim>\<open>sql\<close>; the analysis is the dictionary that \<^verbatim>\<open>analyze_field_operations\<close> builds.
\<close>

record migration_change =
  mc_type :: string
  mc_field_name :: json
  mc_sql :: string

record analysis =
  service_name :: json
  table_name :: json
  operations_count :: nat
  files_to_modify :: "string list"
  migration_changes :: "migration_change list"
  potential_risks :: "string list"
  dependency_impacts :: "string list"
  breaking_changes :: "string list"
  validation_results :: "string list"

text \<open>
  \<^verbatim>\<open>_analyze_single_operation\<close> appends to the lists of the analysis; the model returns
  the analysis with the longer lists. An exception leaves the loop, and the analysis is lost.
\<close>

definition analyze_single_operation ::
  "(json \<Rightarrow> string) \<Rightarrow> analysis \<Rightarrow> json \<Rightarrow> field_operation \<Rightarrow> py_error + analysis" where
  "analyze_single_operation repr an service_info op =
    (if action op = ''add'' then
       ebind (subscript (JObj (field_data op)) ''field'') (\<lambda>field.
       ebind (subscript field ''name'') (\<lambda>name.
       ebind (subscript service_info ''table'') (\<lambda>table.
       ebind (subscript field ''type'') (\<lambda>ftype.
       ebind (Inr (an\<lparr>migration_changes := migration_changes an @
                [\<lparr>mc_type = ''ADD_COLUMN'', mc_field_name = name,
                  mc_sql = ''ALTER TABLE '' @ fstr repr table @ '' ADD COLUMN '' @
                           fstr repr name @ '' '' @ fstr repr ftype\<rparr>]\<rparr>)) (\<lambda>an1.
       ebind (py_get field ''nullable'' (JBool True)) (\<lambda>nullable.
       ebind (if \<not> truthy nullable
              then ebind (py_in ''default_value'' field) (\<lambda>present. Inr (\<not> present))
              else Inr False) (\<lambda>risky.
         Inr (if risky
              then an1\<lparr>potential_risks := potential_risks an1 @
                     [''Adding non-nullable field '' @ quoted (fstr repr name) @
                      '' without default value may fail if table has data'']\<rparr>
              else an1))))))))
     else if action op = ''update'' then
       ebind (subscript (JObj (field_data op)) ''field_name'') (\<lambda>field_name.
       ebind (subscript (JObj (field_data op)) ''changes'') (\<lambda>changes.
       ebind (py_in ''type'' changes) (\<lambda>has_type.
         if has_type then
           ebind (subscript service_info ''table'') (\<lambda>table.
           ebind (subscript changes ''type'') (\<lambda>new_type.
             Inr (an\<lparr>migration_changes := migration_changes an @
                    [\<lparr>mc_type = ''MODIFY_COLUMN'', mc_field_name = field_name,
                      mc_sql = ''ALTER TABLE '' @ fstr repr table @ '' ALTER COLUMN '' @
                               fstr repr field_name @ '' TYPE '' @ fstr repr new_type\<rparr>],
                  potential_risks := potential_risks an @
                    [''Changing type of field '' @ quoted (fstr repr field_name) @
                     '' may cause data loss if incompatible'']\<rparr>)))
         else Inr an)))
     else if action op = ''remove'' then
       ebind (subscript (JObj (field_data op)) ''field_name'') (\<lambda>field_name.
       ebind (subscript service_info ''table'') (\<lambda>table.
         Inr (an\<lparr>migration_changes := migration_changes an @
                [\<lparr>mc_type = ''DROP_COLUMN'', mc_field_name = field_name,
                  mc_sql = ''-- ALTER TABLE '' @ fstr repr table @ '' DROP COLUMN '' @
                           fstr repr field_name @ ''; -- REQUIRES MANUAL CONFIRMATION''\<rparr>],
              breaking_changes := breaking_changes an @
                [''Removing field '' @ quoted (fstr repr field_name) @
                 '' will break any code that references it'']\<rparr>)))
     else Inr an)"

definition get_affected_files :: "(json \<Rightarrow> string) \<Rightarrow> json \<Rightarrow> py_error + string list" where
  "get_affected_files repr service_info =
     ebind (subscript service_info ''name'') (\<lambda>name.
     ebind (json_capitalize name) (\<lambda>capitalized.
     ebind (py_get service_info ''entity'' (JStr capitalized)) (\<lambda>entity.
     ebind (json_lower entity) (\<lambda>entity_lower.
       (let s = fstr repr name; e = fstr repr entity in
        Inr [''src/main/java/com/vira/'' @ s @ ''/model/'' @ e @ ''.java'',
             ''src/main/java/com/vira/'' @ s @ ''/dto/'' @ e @ ''Request.java'',
             ''src/main/java/com/vira/'' @ s @ ''/dto/'' @ e @ ''Response.java'',
             ''src/main/java/com/vira/'' @ s @ ''/service/'' @ e @ ''Service.java'',
             ''src/main/java/com/vira/'' @ s @ ''/repository/'' @ e @ ''Repository.java'',
             ''src/main/java/com/vira/'' @ s @ ''/controller/'' @ e @ ''Controller.java'',
             ''src/test/java/com/vira/'' @ s @ ''/service/'' @ e @ ''ServiceTest.java'',
             ''src/test/java/com/vira/'' @ s @ ''/controller/'' @ e @ ''ControllerTest.java'',
             ''src/main/resources/frontend/api/'' @ entity_lower @ ''ApiService.js''])))))"

fun analyze_operations ::
  "(json \<Rightarrow> string) \<Rightarrow> analysis \<Rightarrow> json \<Rightarrow> field_operation list \<Rightarrow> py_error + analysis" where
  "analyze_operations repr an service_info [] = Inr an"
| "analyze_operations repr an service_info (op # ops) =
     (case analyze_single_operation repr an service_info op of
        Inl e \<Rightarrow> Inl e
      | Inr an' \<Rightarrow> analyze_operations repr an' service_info ops)"

definition analyze_field_operations ::
  "(json \<Rightarrow> string) \<Rightarrow> json \<Rightarrow> field_operation list \<Rightarrow> py_error + analysis" where
  "analyze_field_operations repr service_info operations =
     ebind (subscript service_info ''name'') (\<lambda>name.
     ebind (subscript service_info ''table'') (\<lambda>table.
     ebind (analyze_operations repr
              \<lparr>service_name = name, table_name = table,
               operations_count = length operations, files_to_modify = [],
               migration_changes = [], potential_risks = [], dependency_impacts = [],
               breaking_changes = [], validation_results = []\<rparr>
              service_info operations) (\<lambda>an.
     ebind (get_affected_files repr service_info) (\<lambda>files.
       Inr (an\<lparr>files_to_modify := files\<rparr>)))))"

subsection \<open>The records and warnings of one operation, in the specification's words\<close>








text \<open>
  A statement is commented out when it starts with the SQL line-comment marker and has no
  line break, after which the comment would end.
\<close>

definition line_break_free :: "string \<Rightarrow> bool" where
  "line_break_free s = (CHR 0x0A \<notin> set s \<and> CHR 0x0D \<notin> set s)"


subsection \<open>Example operations\<close>

definition discount_add :: field_operation where
  "discount_add =
     \<lparr>action = ''add'',
      field_data = [(''action'', JStr ''add''),
        (''field'', JObj [(''name'', JStr ''discount_rate''), (''type'', JStr ''DECIMAL(5,2)''),
                          (''javaType'', JStr ''BigDecimal''), (''nullable'', JBool False)])]\<rparr>"



definition product_service :: json where
  "product_service = JObj [(''name'', JStr ''product''), (''table'', JStr ''products'')]"

section \<open>Migration generation\<close>

subsection \<open>Decimal numbers\<close>







subsection \<open>The next version\<close>






subsection \<open>Writing to the project tree\<close>



text \<open>
  A relative path as \<^verbatim>\<open>pathlib\<close> reads it: split at the slashes, without the empty
  components and the \<^verbatim>\<open>.\<close> components.
\<close>

fun split_on :: "char \<Rightarrow> string \<Rightarrow> string list" where
  "split_on sep [] = [[]]"
| "split_on sep (c # cs) =
     (if c = sep then [] # split_on sep cs
      else (case split_on sep cs of [] \<Rightarrow> [[c]] | w # ws \<Rightarrow> (c # w) # ws))"

definition path_of :: "string \<Rightarrow> path" where
  "path_of s = filter (\<lambda>k. k \<noteq> [] \<and> k \<noteq> ''.'') (split_on CHR ''/'' s)"


subsection \<open>The migration file\<close>





fun join :: "string \<Rightarrow> string list \<Rightarrow> string" where
  "join sep [] = []"
| "join sep [x] = x"
| "join sep (x # y # ys) = x @ sep @ join sep (y # ys)"




subsection \<open>The naming pattern, in the specification's words\<close>



subsection \<open>Example project trees\<close>




section \<open>BackupManager\<close>

text \<open>
  The file-system calls of \<^verbatim>\<open>create_backup\<close> and \<^verbatim>\<open>restore_backup\<close> on the tree.
  \<open>put\<close> writes a node at a path and makes the missing parent directories, as
  \<^verbatim>\<open>mkdir(parents=True, exist_ok=True)\<close> followed by a copy does; it fails when a parent is a
  regular file. \<open>remove\<close> deletes the node at a path. \<^verbatim>\<open>shutil.rmtree\<close> raises on a path that is
  not a directory. \<^verbatim>\<open>shutil.copytree\<close> raises on an existing destination unless
  \<^verbatim>\<open>dirs_exist_ok\<close> is set, in which case it merges into the destination.
  \<^verbatim>\<open>shutil.copy2\<close> onto a directory copies into it, under the name of the source.
\<close>

fun put :: "node \<Rightarrow> path \<Rightarrow> node \<Rightarrow> py_error + node" where
  "put t [] n = Inl OSError"
| "put (File c) (k # ks) n = Inl OSError"
| "put (Dir es) [k] n = Inr (Dir (AList.update k n es))"
| "put (Dir es) (k # k' # ks) n =
     (case put (case map_of es k of None \<Rightarrow> Dir [] | Some m \<Rightarrow> m) (k' # ks) n of
        Inl e \<Rightarrow> Inl e
      | Inr m' \<Rightarrow> Inr (Dir (AList.update k m' es)))"

fun remove :: "node \<Rightarrow> path \<Rightarrow> node" where
  "remove t [] = t"
| "remove (File c) (k # ks) = File c"
| "remove (Dir es) [k] = Dir (AList.delete k es)"
| "remove (Dir es) (k # k' # ks) =
     (case map_of es k of
        None \<Rightarrow> Dir es
      | Some m \<Rightarrow> Dir (AList.update k (remove m (k' # ks)) es))"

definition rmtree :: "node \<Rightarrow> path \<Rightarrow> py_error + node" where
  "rmtree t p =
     (case lookup t p of
        Some (Dir es) \<Rightarrow> if p = [] then Inl OSError else Inr (remove t p)
      | _ \<Rightarrow> Inl OSError)"

fun merge_entries :: "(string \<times> node) list \<Rightarrow> (string \<times> node) list \<Rightarrow> py_error + (string \<times> node) list" where
  "merge_entries [] ds = Inr ds"
| "merge_entries ((k, File c) # es) ds =
     (case map_of ds k of
        Some (Dir sub) \<Rightarrow>
          (case map_of sub k of
             Some (Dir x) \<Rightarrow> Inl OSError
           | _ \<Rightarrow> merge_entries es (AList.update k (Dir (AList.update k (File c) sub)) ds))
      | _ \<Rightarrow> merge_entries es (AList.update k (File c) ds))"
| "merge_entries ((k, Dir se) # es) ds =
     (case map_of ds k of
        Some (File c) \<Rightarrow> Inl OSError
      | Some (Dir de) \<Rightarrow>
          (case merge_entries se de of
             Inl e \<Rightarrow> Inl e
           | Inr de' \<Rightarrow> merge_entries es (AList.update k (Dir de') ds))
      | None \<Rightarrow>
          (case merge_entries se [] of
             Inl e \<Rightarrow> Inl e
           | Inr de' \<Rightarrow> merge_entries es (AList.update k (Dir de') ds)))"

definition copytree :: "node \<Rightarrow> path \<Rightarrow> (string \<times> node) list \<Rightarrow> bool \<Rightarrow> py_error + node" where
  "copytree t dst src dirs_exist_ok =
     (case lookup t dst of
        None \<Rightarrow> put t dst (Dir src)
      | Some (File c) \<Rightarrow> Inl OSError
      | Some (Dir de) \<Rightarrow>
          if dirs_exist_ok
          then (case merge_entries src de of Inl e \<Rightarrow> Inl e | Inr de' \<Rightarrow> put t dst (Dir de'))
          else Inl OSError)"

definition copy2 :: "node \<Rightarrow> path \<Rightarrow> string \<Rightarrow> py_error + node" where
  "copy2 t dst content =
     (case lookup t dst of
        Some (Dir sub) \<Rightarrow>
          (case map_of sub (last dst) of
             Some (Dir x) \<Rightarrow> Inl OSError
           | _ \<Rightarrow> put t (dst @ [last dst]) (File content))
      | _ \<Rightarrow> put t dst (File content))"

text \<open>
  The directory \<^verbatim>\<open>backups\<close> is a store of its own, from backup ids to the saved tree and the
  manifest: every path that is backed up starts with \<^verbatim>\<open>src\<close>, so that the saved trees are not
  part of what is saved. A backup whose manifest is missing cannot be restored. Paths are
  split at \<open>/\<close> and carry no parent links, so a service name with a \<open>..\<close> component is
  outside the model.
\<close>

record manifest =
  backup_id :: string
  m_service_name :: json
  timestamp :: string
  files_backed_up :: "string list"

record backup =
  saved :: node
  manifest_json :: "manifest option"

type_synonym backup_store = "(string \<times> backup) list"

definition files_to_backup :: "string \<Rightarrow> string list" where
  "files_to_backup svc =
     [''src/main/java/com/vira/'' @ svc,
      ''src/test/java/com/vira/'' @ svc,
      ''src/main/resources/frontend/api'',
      ''src/main/resources/db/migration'']"

fun copy_all :: "node \<Rightarrow> string list \<Rightarrow> node \<Rightarrow> py_error + node" where
  "copy_all tree [] dir = Inr dir"
| "copy_all tree (file_path # rest) dir =
     (case lookup tree (path_of file_path) of
        None \<Rightarrow> copy_all tree rest dir
      | Some (Dir es) \<Rightarrow>
          (case copytree dir (path_of file_path) es True of
             Inl e \<Rightarrow> Inl e | Inr dir' \<Rightarrow> copy_all tree rest dir')
      | Some (File c) \<Rightarrow>
          (case copy2 dir (path_of file_path) c of
             Inl e \<Rightarrow> Inl e | Inr dir' \<Rightarrow> copy_all tree rest dir'))"

text \<open>
  \<^verbatim>\<open>create_backup\<close>. The backup id and the paths to back up are f-strings over the service
  name, and the clock is read to the second. \<^verbatim>\<open>backup_dir.mkdir(parents=True)\<close> raises when the directory exists, and the
  handler then removes the directory, which is the backup made before under that id.
\<close>

definition create_backup ::
  "(json \<Rightarrow> string) \<Rightarrow> json \<Rightarrow> string \<Rightarrow> node \<Rightarrow> backup_store \<Rightarrow>
   (py_error + string) \<times> backup_store" where
  "create_backup repr svc now tree store =
     (let bid = ''field_modification_'' @ fstr repr svc @ ''_'' @ now
      in if map_of store bid \<noteq> None then (Inl OSError, AList.delete bid store)
         else (case copy_all tree (files_to_backup (fstr repr svc)) (Dir []) of
                 Inl e \<Rightarrow> (Inl e, store)
               | Inr dir \<Rightarrow>
                   (Inr bid,
                    AList.update bid
                      \<lparr>saved = dir,
                       manifest_json =
                         Some \<lparr>backup_id = bid, m_service_name = svc,
                               timestamp = now,
                               files_backed_up = files_to_backup (fstr repr svc)\<rparr>\<rparr>
                      store)))"

text \<open>
  \<^verbatim>\<open>restore_backup\<close>: every exception ends the loop with the result \<open>False\<close>, and what was
  written to the project before it stays.
\<close>

fun restore_all :: "node \<Rightarrow> string list \<Rightarrow> node \<Rightarrow> bool \<times> node" where
  "restore_all dir [] tree = (True, tree)"
| "restore_all dir (file_path # rest) tree =
     (case lookup dir (path_of file_path) of
        None \<Rightarrow> restore_all dir rest tree
      | Some (Dir es) \<Rightarrow>
          (case (if lookup tree (path_of file_path) \<noteq> None
                 then rmtree tree (path_of file_path) else Inr tree) of
             Inl e \<Rightarrow> (False, tree)
           | Inr tree1 \<Rightarrow>
               (case copytree tree1 (path_of file_path) es False of
                  Inl e \<Rightarrow> (False, tree1)
                | Inr tree2 \<Rightarrow> restore_all dir rest tree2))
      | Some (File c) \<Rightarrow>
          (case copy2 tree (path_of file_path) c of
             Inl e \<Rightarrow> (False, tree)
           | Inr tree1 \<Rightarrow> restore_all dir rest tree1))"

definition restore_backup :: "string \<Rightarrow> node \<Rightarrow> backup_store \<Rightarrow> bool \<times> node" where
  "restore_backup bid tree store =
     (case map_of store bid of
        None \<Rightarrow> (False, tree)
      | Some b \<Rightarrow>
          (case manifest_json b of
             None \<Rightarrow> (False, tree)
           | Some m \<Rightarrow> restore_all (saved b) (files_backed_up m) tree))"

subsection \<open>Example trees for the backup\<close>

definition shop_tree :: node where
  "shop_tree =
     Dir [(''src'', Dir [(''main'', Dir [
        (''java'', Dir [(''com'', Dir [(''vira'', Dir [(''product'', Dir [(''model'',
           Dir [(''Product.java'', File ''public class Product {}'')])])])])]),
        (''resources'', Dir [(''db'', Dir [(''migration'',
           Dir [(''V1__create_products.sql'', File ''CREATE TABLE products (id BIGSERIAL);'')])])])])])]"

definition damaged_tree :: node where
  "damaged_tree =
     Dir [(''src'', Dir [(''main'', Dir [
        (''java'', Dir [(''com'', Dir [(''vira'', Dir [(''product'', Dir [(''model'',
           Dir [(''Product.java'', File ''broken'')])])])])])])])]"

subsection \<open>Changes between the snapshot and the restoration\<close>

text \<open>
  Two paths are incomparable when neither is below the other. \<open>kinds_kept t t' p\<close>: from the
  tree \<open>t\<close> to the tree \<open>t'\<close>, no regular file on the way to \<open>p\<close> or at \<open>p\<close> became a
  directory and no directory there became a regular file; contents may change, anything may
  be deleted or added, and below \<open>p\<close> everything may change.
\<close>

definition incomparable :: "path \<Rightarrow> path \<Rightarrow> bool" where
  "incomparable p q = (\<not> prefix p q \<and> \<not> prefix q p)"

definition clear_above :: "node \<Rightarrow> path \<Rightarrow> bool" where
  "clear_above t p = (\<forall>q c. strict_prefix q p \<longrightarrow> lookup t q \<noteq> Some (File c))"

fun separate :: "path list \<Rightarrow> bool" where
  "separate [] = True"
| "separate (p # ps) = (p \<noteq> [] \<and> (\<forall>q \<in> set ps. incomparable p q) \<and> separate ps)"

definition same_kind :: "node option \<Rightarrow> node option \<Rightarrow> bool" where
  "same_kind a b =
     (case (a, b) of
        (Some (File c), Some (Dir es)) \<Rightarrow> False
      | (Some (Dir es), Some (File c)) \<Rightarrow> False
      | _ \<Rightarrow> True)"

definition kinds_kept :: "node \<Rightarrow> node \<Rightarrow> path \<Rightarrow> bool" where
  "kinds_kept t t' p = (\<forall>q \<in> set (prefixes p). same_kind (lookup t q) (lookup t' q))"

definition fits :: "node \<Rightarrow> path \<Rightarrow> node \<Rightarrow> bool" where
  "fits t p n = (clear_above t p \<and> same_kind (Some n) (lookup t p))"

section \<open>FieldModifier.process_field_operations\<close>

subsection \<open>Validation of the operations file\<close>

text \<open>
  \<^verbatim>\<open>_validate_operations_file\<close>: the loops over the required names, the test of the
  operation type, and the test that the list of operations is not empty.
\<close>

fun require_fields :: "string \<Rightarrow> string list \<Rightarrow> json \<Rightarrow> py_error + unit" where
  "require_fields msg [] data = Inr ()"
| "require_fields msg (field # others) data =
     ebind (py_in field data) (\<lambda>present.
       if \<not> present then Inl (ValueError (msg @ field))
       else require_fields msg others data)"

definition validate_operations_file :: "(json \<Rightarrow> string) \<Rightarrow> json \<Rightarrow> py_error + unit" where
  "validate_operations_file repr data =
     ebind (require_fields ''Missing required field: ''
              [''operation_type'', ''target_service'', ''field_operations''] data) (\<lambda>u.
     ebind (subscript data ''operation_type'') (\<lambda>operation_type.
       if operation_type \<noteq> JStr ''modify_service''
       then Inl (ValueError (''Invalid operation_type: '' @ fstr repr operation_type))
       else
     ebind (subscript data ''target_service'') (\<lambda>target_service.
     ebind (require_fields ''Missing required target_service field: ''
              [''name'', ''table''] target_service) (\<lambda>u.
     ebind (subscript data ''field_operations'') (\<lambda>ops.
       if \<not> truthy ops then Inl (ValueError ''No field operations specified'')
       else Inr ())))))"

subsection \<open>Parsing the operations\<close>

text \<open>
  Iteration over a loaded value, as the list comprehension over
  \<^verbatim>\<open>operations_data['field_operations']\<close> does it: a list yields its elements, a dictionary
  its keys, a string its characters. One element becomes
  \<^verbatim>\<open>FieldOperation(op['action'], op)\<close>; the constructor calls \<^verbatim>\<open>action.lower()\<close>, which only
  a string has. The first exception ends the comprehension.
\<close>

fun py_iter :: "json \<Rightarrow> py_error + json list" where
  "py_iter (JArr xs) = Inr xs"
| "py_iter (JObj kvs) = Inr (map JStr (remdups (map fst kvs)))"
| "py_iter (JStr s) = Inr (map (\<lambda>c. JStr [c]) s)"
| "py_iter v = Inl TypeError"

definition make_operation :: "json \<Rightarrow> py_error + field_operation" where
  "make_operation op =
     ebind (subscript op ''action'') (\<lambda>a.
       case a of
         JStr s \<Rightarrow> FieldOperation s (case op of JObj d \<Rightarrow> d | _ \<Rightarrow> [])
       | _ \<Rightarrow> Inl AttributeError)"

fun map_ok :: "('a \<Rightarrow> py_error + 'b) \<Rightarrow> 'a list \<Rightarrow> py_error + 'b list" where
  "map_ok f [] = Inr []"
| "map_ok f (x # xs) =
     ebind (f x) (\<lambda>y. ebind (map_ok f xs) (\<lambda>ys. Inr (y # ys)))"

text \<open>The loop that collects the errors of \<^verbatim>\<open>validate_operation_safety\<close>.\<close>

fun safety_errors ::
  "(json \<Rightarrow> string) \<Rightarrow> (string \<Rightarrow> py_error + string) \<Rightarrow> field_operation list \<Rightarrow> json \<Rightarrow> node \<Rightarrow>
   py_error + string list" where
  "safety_errors repr decode [] service_info project_root = Inr []"
| "safety_errors repr decode (operation # rest) service_info project_root =
     ebind (validate_operation_safety repr decode operation service_info project_root) (\<lambda>errors.
     ebind (safety_errors repr decode rest service_info project_root) (\<lambda>later.
       Inr (errors @ later)))"

subsection \<open>ConfirmationManager\<close>

text \<open>
  \<^verbatim>\<open>confirm_operations\<close> reads lines from the standard input until one of them, in lower
  case and without the surrounding white space, is \<^verbatim>\<open>yes\<close>, \<^verbatim>\<open>y\<close>, \<^verbatim>\<open>no\<close> or \<^verbatim>\<open>n\<close>.
  \<^verbatim>\<open>input()\<close> raises \<^verbatim>\<open>EOFError\<close> at the end of the input. The report it prints and the
  details it shows on request change nothing else.
\<close>

definition is_space :: "char \<Rightarrow> bool" where
  "is_space c =
     (c \<in> set [CHR 0x09, CHR 0x0A, CHR 0x0B, CHR 0x0C, CHR 0x0D,
                CHR 0x1C, CHR 0x1D, CHR 0x1E, CHR 0x1F, CHR 0x20, CHR 0x85, CHR 0xA0])"

definition py_strip :: "string \<Rightarrow> string" where
  "py_strip s = rev (dropWhile is_space (rev (dropWhile is_space s)))"

fun confirm_operations :: "string list \<Rightarrow> py_error + bool" where
  "confirm_operations [] = Inl EOFError"
| "confirm_operations (line # lines) =
     (let response = py_strip (py_lower line)
      in if response \<in> set [''yes'', ''y''] then Inr True
         else if response \<in> set [''no'', ''n''] then Inr False
         else confirm_operations lines)"

subsection \<open>One run\<close>

text \<open>
  What a run reads: the result of opening and loading the operations file, the lines of the
  standard input, the clock, the codec of the locale, and the body of \<^verbatim>\<open>_apply_field_operations\<close>, which either
  returns or raises and leaves the project tree as it was at that moment. The run is defined
  for every such body. What a run changes: the project tree and the backups. The calls to the
  backup manager and to \<^verbatim>\<open>_apply_field_operations\<close> are recorded in the order they are made.
\<close>

record environment =
  operations_file :: "py_error + json"
  stdin :: "string list"
  clock :: string
  encoding :: "string \<Rightarrow> py_error + string"
  apply_field_operations ::
    "json \<Rightarrow> field_operation list \<Rightarrow> analysis \<Rightarrow> node \<Rightarrow> py_error option \<times> node"

datatype call = CreateBackup json | ApplyFieldOperations | RestoreBackup string

record world =
  project :: node
  backups :: backup_store
  calls :: "call list"

text \<open>
  The part of \<^verbatim>\<open>process_field_operations\<close> before the backup: it ends the run with a result,
  or lets it proceed with the parsed service, operations and analysis. An exception is caught
  by the outer handler, which returns \<^verbatim>\<open>False\<close>.
\<close>

datatype decision = Stop bool | Proceed json "field_operation list" analysis

definition decide :: "(json \<Rightarrow> string) \<Rightarrow> environment \<Rightarrow> node \<Rightarrow> py_error + decision" where
  "decide repr env project_root =
     ebind (operations_file env) (\<lambda>operations_data.
     ebind (validate_operations_file repr operations_data) (\<lambda>u.
     ebind (subscript operations_data ''target_service'') (\<lambda>service_info.
     ebind (subscript operations_data ''field_operations'') (\<lambda>listed.
     ebind (py_iter listed) (\<lambda>items.
     ebind (map_ok make_operation items) (\<lambda>field_operations.
     ebind (py_get operations_data ''options'' (JObj [])) (\<lambda>options.
     ebind (analyze_field_operations repr service_info field_operations) (\<lambda>analysis.
     ebind (safety_errors repr (encoding env) field_operations service_info project_root) (\<lambda>validation_errors.
       if validation_errors \<noteq> [] then Inr (Stop False)
       else
     ebind (py_get options ''dry_run'' (JBool False)) (\<lambda>dry_run.
       if truthy dry_run then Inr (Stop True)
       else
     ebind (py_get options ''auto_confirm'' (JBool False)) (\<lambda>auto_confirm.
       if \<not> truthy auto_confirm
       then ebind (confirm_operations (stdin env)) (\<lambda>confirmed.
              if \<not> confirmed then Inr (Stop False)
              else Inr (Proceed service_info field_operations analysis))
       else Inr (Proceed service_info field_operations analysis))))))))))))"

text \<open>
  The backup, the application of the operations, and the restoration when the application
  raises. An exception of \<^verbatim>\<open>create_backup\<close> is caught by the outer handler.
\<close>

definition process_field_operations ::
  "(json \<Rightarrow> string) \<Rightarrow> environment \<Rightarrow> world \<Rightarrow> bool \<times> world" where
  "process_field_operations repr env w =
     (case decide repr env (project w) of
        Inl e \<Rightarrow> (False, w)
      | Inr (Stop result) \<Rightarrow> (result, w)
      | Inr (Proceed service_info field_operations analysis) \<Rightarrow>
          (case subscript service_info ''name'' of
             Inl e \<Rightarrow> (False, w)
           | Inr name \<Rightarrow>
               (case create_backup repr name (clock env) (project w) (backups w) of
                  (Inl e, store) \<Rightarrow>
                    (False, w\<lparr>backups := store, calls := calls w @ [CreateBackup name]\<rparr>)
                | (Inr bid, store) \<Rightarrow>
                    (case apply_field_operations env service_info field_operations analysis
                            (project w) of
                       (None, tree) \<Rightarrow>
                         (True, \<lparr>project = tree, backups = store,
                                 calls = calls w @ [CreateBackup name, ApplyFieldOperations]\<rparr>)
                     | (Some e, tree) \<Rightarrow>
                         (False,
                          \<lparr>project = snd (restore_backup bid tree store),
                           backups = store,
                           calls = calls w @ [CreateBackup name, ApplyFieldOperations,
                                              RestoreBackup bid]\<rparr>)))))"

subsection \<open>The gates of a run, in the specification's words\<close>

text \<open>
  An option of the request is set when the options can be read and the value is true for
  Python. The request is structurally valid when it loads and passes
  \<^verbatim>\<open>_validate_operations_file\<close>. \<open>request_safety\<close> is the list of errors that safety validation
  returns for the operations of the request. \<open>operator_answer\<close> is the answer given at the
  confirmation prompt, if one is given.
\<close>

definition request_options :: "environment \<Rightarrow> py_error + json" where
  "request_options env =
     ebind (operations_file env) (\<lambda>data. py_get data ''options'' (JObj []))"

definition option_set :: "string \<Rightarrow> environment \<Rightarrow> bool" where
  "option_set k env =
     (case ebind (request_options env) (\<lambda>options. py_get options k (JBool False)) of
        Inl e \<Rightarrow> False
      | Inr v \<Rightarrow> truthy v)"

definition structurally_valid :: "(json \<Rightarrow> string) \<Rightarrow> environment \<Rightarrow> bool" where
  "structurally_valid repr env =
     (case operations_file env of
        Inl e \<Rightarrow> False
      | Inr data \<Rightarrow> validate_operations_file repr data = Inr ())"

definition request_safety ::
  "(json \<Rightarrow> string) \<Rightarrow> environment \<Rightarrow> node \<Rightarrow> py_error + string list" where
  "request_safety repr env project_root =
     ebind (operations_file env) (\<lambda>data.
     ebind (subscript data ''target_service'') (\<lambda>service_info.
     ebind (subscript data ''field_operations'') (\<lambda>listed.
     ebind (py_iter listed) (\<lambda>items.
     ebind (map_ok make_operation items) (\<lambda>field_operations.
       safety_errors repr (encoding env) field_operations service_info project_root)))))"

definition safety_reports_errors :: "(json \<Rightarrow> string) \<Rightarrow> environment \<Rightarrow> node \<Rightarrow> bool" where
  "safety_reports_errors repr env project_root =
     (case request_safety repr env project_root of
        Inl e \<Rightarrow> False
      | Inr errors \<Rightarrow> errors \<noteq> [])"

definition operator_answer :: "environment \<Rightarrow> bool option" where
  "operator_answer env =
     (case confirm_operations (stdin env) of Inl e \<Rightarrow> None | Inr b \<Rightarrow> Some b)"

subsection \<open>Example runs\<close>

definition product_request :: json where
  "product_request =
     JObj [(''operation_type'', JStr ''modify_service''),
           (''target_service'', product_service),
           (''field_operations'', JArr [JObj (field_data discount_add)]),
           (''options'', JObj [(''auto_confirm'', JBool True)])]"

definition failing_run :: environment where
  "failing_run =
     \<lparr>operations_file = Inr product_request,
      stdin = [],
      clock = ''20240101_120000'',
      encoding = decode_ascii,
      apply_field_operations = (\<lambda>service_info operations an tree. (Some TemplateError, damaged_tree))\<rparr>"

definition dry_run :: environment where
  "dry_run =
     \<lparr>operations_file =
        Inr (JObj [(''operation_type'', JStr ''modify_service''),
                   (''target_service'', product_service),
                   (''field_operations'', JArr [JObj (field_data discount_add)]),
                   (''options'', JObj [(''dry_run'', JBool True)])]),
      stdin = [],
      clock = ''20240101_120000'',
      encoding = decode_ascii,
      apply_field_operations = (\<lambda>service_info operations an tree. (None, damaged_tree))\<rparr>"

definition shop_world :: world where
  "shop_world = \<lparr>project = shop_tree, backups = [], calls = []\<rparr>"

section \<open>JavaFileUpdater\<close>

subsection \<open>Lists of lines\<close>

text \<open>
  \<^verbatim>\<open>list.insert(i, x)\<close>: a negative index counts from the end, and an index outside the
  list is the nearest end. \<open>insert_lines\<close> is the loop
  \<^verbatim>\<open>for j, line in enumerate(new_lines): lines.insert(pos + j, line)\<close>, and \<open>py_pop\<close> is
  \<^verbatim>\<open>lines.pop(i)\<close> for an index inside the list.
\<close>

definition py_insert :: "int \<Rightarrow> 'a \<Rightarrow> 'a list \<Rightarrow> 'a list" where
  "py_insert i x xs =
     (let n = int (length xs);
          k = (if i < 0 then max 0 (i + n) else min i n)
      in take (nat k) xs @ x # drop (nat k) xs)"

fun insert_lines :: "int \<Rightarrow> string list \<Rightarrow> string list \<Rightarrow> string list" where
  "insert_lines pos [] lines = lines"
| "insert_lines pos (l # ls) lines = insert_lines (pos + 1) ls (py_insert pos l lines)"

definition py_pop :: "nat \<Rightarrow> 'a list \<Rightarrow> 'a list" where
  "py_pop i xs = take i xs @ drop (Suc i) xs"

definition count_char :: "char \<Rightarrow> string \<Rightarrow> int" where
  "count_char c s = int (length (filter (\<lambda>d. d = c) s))"

subsection \<open>Names\<close>

text \<open>
  \<^verbatim>\<open>str.title()\<close> on ASCII letters: a letter after a letter is in lower case, every other
  letter in upper case. \<open>field_title\<close> is \<^verbatim>\<open>name.replace("_", " ").title()\<close>;
  \<^verbatim>\<open>_to_camel_case\<close> and \<^verbatim>\<open>_to_pascal_case\<close> split the name at the underscores. Only a
  string has these methods.
\<close>

definition is_letter :: "char \<Rightarrow> bool" where
  "is_letter c = (upper_char c \<noteq> c \<or> lower_char c \<noteq> c)"

fun title_from :: "bool \<Rightarrow> string \<Rightarrow> string" where
  "title_from cased [] = []"
| "title_from cased (c # cs) =
     (if is_letter c
      then (if cased then lower_char c else upper_char c) # title_from True cs
      else c # title_from False cs)"

definition py_title :: "string \<Rightarrow> string" where
  "py_title s = title_from False s"

definition field_title :: "json \<Rightarrow> py_error + string" where
  "field_title v =
     (case v of
        JStr s \<Rightarrow> Inr (py_title (map (\<lambda>c. if c = CHR ''_'' then CHR '' '' else c) s))
      | _ \<Rightarrow> Inl AttributeError)"

definition to_camel_case :: "json \<Rightarrow> py_error + string" where
  "to_camel_case v =
     (case v of
        JStr s \<Rightarrow>
          (case split_on CHR ''_'' s of
             [] \<Rightarrow> Inl IndexError
           | w # ws \<Rightarrow> Inr (w @ concat (map py_capitalize ws)))
      | _ \<Rightarrow> Inl AttributeError)"

definition to_pascal_case :: "json \<Rightarrow> py_error + string" where
  "to_pascal_case v =
     (case v of
        JStr s \<Rightarrow> Inr (concat (map py_capitalize (split_on CHR ''_'' s)))
      | _ \<Rightarrow> Inl AttributeError)"

subsection \<open>The parsed file and the loops\<close>

text \<open>
  Of the structure that the parser returns, the rewriting reads the lines and, of every
  field, the name and the line number. \<open>py_for\<close> is a \<^verbatim>\<open>for\<close> loop over a list: the first
  element first; a body that raises ends the loop, and so does a body that does not return.
  \<open>reversed\<close> is Python's \<^verbatim>\<open>reversed\<close>.
\<close>

record java_structure =
  file_lines :: "string list"
  file_fields :: "(string \<times> nat) list"

definition then_apply ::
  "(py_error + 's) option \<Rightarrow> ('s \<Rightarrow> (py_error + 't) option) \<Rightarrow> (py_error + 't) option" where
  "then_apply r f = (case r of None \<Rightarrow> None | Some (Inl e) \<Rightarrow> Some (Inl e) | Some (Inr s) \<Rightarrow> f s)"

fun py_for ::
  "('a \<Rightarrow> 's \<Rightarrow> (py_error + 's) option) \<Rightarrow> 'a list \<Rightarrow> 's \<Rightarrow> (py_error + 's) option" where
  "py_for body [] s = Some (Inr s)"
| "py_for body (x # xs) s =
     (case body x s of
        None \<Rightarrow> None
      | Some (Inl e) \<Rightarrow> Some (Inl e)
      | Some (Inr s') \<Rightarrow> py_for body xs s')"

definition reversed :: "'a list \<Rightarrow> 'a list" where
  "reversed xs = rev xs"


subsection \<open>The service file\<close>

text \<open>
  The end of a method, as both helpers look for it: from the line of the method on, braces
  are counted, and the search stops at the first line with a closing brace at which the
  count is zero, or at the end of the lines.
\<close>

fun scan_braces :: "string list \<Rightarrow> int \<Rightarrow> nat \<Rightarrow> nat" where
  "scan_braces [] brace_count j = j"
| "scan_braces (l # ls) brace_count j =
     (let opened = brace_count + count_char CHR ''{'' l
      in if CHR ''}'' \<in> set l
         then (let balance = opened - count_char CHR ''}'' l
               in if balance = 0 then j else scan_braces ls balance (j + 1))
         else scan_braces ls opened (j + 1))"

definition method_end :: "string list \<Rightarrow> nat \<Rightarrow> nat" where
  "method_end lines i = scan_braces (drop i lines) 0 i"

text \<open>
  \<^verbatim>\<open>_add_field_validation\<close> inserts the check of a required field, as one element of three
  lines, before the last line of the first validation method, and stops at that method.
\<close>

definition required_validation :: "json \<Rightarrow> py_error + bool" where
  "required_validation field =
     ebind (py_get field ''validation'' (JObj [])) (\<lambda>validation.
     ebind (py_get validation ''required'' JNull) (\<lambda>required. Inr (truthy required)))"

definition validation_code :: "json \<Rightarrow> py_error + string" where
  "validation_code field =
     ebind (subscript field ''name'') (\<lambda>name.
     ebind (to_camel_case name) (\<lambda>camel_case_name.
     ebind (field_title name) (\<lambda>title.
     ebind (subscript field ''javaType'') (\<lambda>java_type.
     ebind (to_pascal_case name) (\<lambda>pascal.
       Inr ((if java_type = JStr ''String''
             then ''        if (!StringUtils.hasText(request.get'' @ pascal @ ''())) {''
             else ''        if (request.get'' @ pascal @ ''() == null) {'') @
            [CHR 0x0A] @
            ''            throw new BusinessException('' @ [CHR 0x22] @ title @
            '' is required'' @ [CHR 0x22] @ '');'' @
            [CHR 0x0A] @
            ''        }''))))))"

fun first_index :: "('a \<Rightarrow> bool) \<Rightarrow> 'a list \<Rightarrow> nat option" where
  "first_index P [] = None"
| "first_index P (x # xs) =
     (if P x then Some 0 else map_option Suc (first_index P xs))"

definition add_field_validation :: "string list \<Rightarrow> json \<Rightarrow> py_error + string list" where
  "add_field_validation lines field =
     (case first_index (\<lambda>line. str_in ''validateCreateRequest'' line \<or>
                                 str_in ''validateUpdateRequest'' line) lines of
        None \<Rightarrow> Inr lines
      | Some i \<Rightarrow>
          (let j = method_end lines i
           in ebind (required_validation field) (\<lambda>required.
                if required
                then ebind (validation_code field) (\<lambda>code.
                       Inr (py_insert (int j - 1) code lines))
                else Inr lines)))"

text \<open>
  \<^verbatim>\<open>_add_field_mapping\<close> walks over the lines while it inserts into them. When the
  insertion is not after the line the loop is at (the method closes on that line or on the
  next), the loop meets the same line again, and it does not end; so the loop is a partial
  function.
\<close>

definition entity_lower :: "json \<Rightarrow> py_error + string" where
  "entity_lower service_info =
     ebind (py_get service_info ''entity'' (JStr ''Entity'')) json_lower"

definition mapping_line :: "json \<Rightarrow> json \<Rightarrow> string \<Rightarrow> string \<Rightarrow> py_error + string option" where
  "mapping_line service_info field pascal line =
     ebind (if str_in ''createEntityFromRequest'' line
            then ebind (py_get field ''autoGenerated'' (JBool False)) (\<lambda>auto_generated.
                   Inr (\<not> truthy auto_generated))
            else Inr False) (\<lambda>from_request.
       if from_request
       then ebind (entity_lower service_info) (\<lambda>entity.
              Inr (Some (''        '' @ entity @ ''.set'' @ pascal @ ''(request.get'' @ pascal @
                         ''());'')))
       else if str_in ''convertToResponse'' line
       then ebind (entity_lower service_info) (\<lambda>entity.
              Inr (Some (''        response.set'' @ pascal @ ''('' @ entity @ ''.get'' @ pascal @
                         ''());'')))
       else Inr None)"

partial_function (option) mapping_loop ::
  "json \<Rightarrow> json \<Rightarrow> string \<Rightarrow> nat \<Rightarrow> string list \<Rightarrow> (py_error + string list) option" where
  "mapping_loop service_info field pascal i lines =
     (if i < length lines
      then (if str_in ''createEntityFromRequest'' (lines ! i) \<or>
               str_in ''updateEntityFromRequest'' (lines ! i) \<or>
               str_in ''convertToResponse'' (lines ! i)
            then (case mapping_line service_info field pascal (lines ! i) of
                    Inl e \<Rightarrow> Some (Inl e)
                  | Inr None \<Rightarrow> mapping_loop service_info field pascal (i + 1) lines
                  | Inr (Some mapping) \<Rightarrow>
                      mapping_loop service_info field pascal (i + 1)
                        (py_insert (int (method_end lines i) - 1) mapping lines))
            else mapping_loop service_info field pascal (i + 1) lines)
      else Some (Inr lines))"

declare mapping_loop.simps [code]

definition add_field_mapping ::
  "string list \<Rightarrow> json \<Rightarrow> json \<Rightarrow> (py_error + string list) option" where
  "add_field_mapping lines field service_info =
     (case ebind (subscript field ''name'') (\<lambda>name.
           ebind (to_camel_case name) (\<lambda>camel_case_name. to_pascal_case name)) of
        Inl e \<Rightarrow> Some (Inl e)
      | Inr pascal \<Rightarrow> mapping_loop service_info field pascal 0 lines)"

text \<open>
  \<^verbatim>\<open>_remove_field_references\<close> drops every element that mentions the getter or the
  setter of the field. \<^verbatim>\<open>_update_field_validation\<close> changes no line, and raises where its
  tests on the changes raise.
\<close>

definition remove_field_references :: "string list \<Rightarrow> json \<Rightarrow> py_error + string list" where
  "remove_field_references lines field_name =
     ebind (to_pascal_case field_name) (\<lambda>pascal.
       Inr (filter (\<lambda>line. \<not> (str_in (''get'' @ pascal @ ''()'') line \<or>
                                 str_in (''set'' @ pascal @ ''('') line)) lines))"

fun check_validation_lines :: "string \<Rightarrow> json \<Rightarrow> string list \<Rightarrow> py_error + unit" where
  "check_validation_lines pascal changes [] = Inr ()"
| "check_validation_lines pascal changes (line # rest) =
     ebind (if str_in (''get'' @ pascal @ ''()'') line
            then ebind (py_in ''validation'' changes) (\<lambda>has_validation.
                   if has_validation
                   then ebind (py_get changes ''validation'' (JObj [])) (\<lambda>validation.
                        ebind (py_in ''maxLength'' validation) (\<lambda>has_length. Inr ()))
                   else Inr ())
            else Inr ()) (\<lambda>u. check_validation_lines pascal changes rest)"

definition update_field_validation ::
  "string list \<Rightarrow> json \<Rightarrow> json \<Rightarrow> py_error + string list" where
  "update_field_validation lines field_name changes =
     ebind (to_pascal_case field_name) (\<lambda>pascal.
     ebind (check_validation_lines pascal changes lines) (\<lambda>u. Inr lines))"

text \<open>
  \<^verbatim>\<open>_apply_service_operations\<close>: one operation, and the loop over the operations.
\<close>

definition service_step ::
  "json \<Rightarrow> field_operation \<Rightarrow> string list \<Rightarrow> (py_error + string list) option" where
  "service_step service_info operation lines =
     (if action operation = ''add'' then
        (case ebind (subscript (JObj (field_data operation)) ''field'') (\<lambda>field.
              ebind (required_validation field) (\<lambda>required.
              ebind (if required then add_field_validation lines field else Inr lines)
                (\<lambda>lines1. Inr (field, lines1)))) of
           Inl e \<Rightarrow> Some (Inl e)
         | Inr (field, lines1) \<Rightarrow> add_field_mapping lines1 field service_info)
      else if action operation = ''remove'' then
        Some (ebind (subscript (JObj (field_data operation)) ''field_name'') (\<lambda>field_name.
                remove_field_references lines field_name))
      else if action operation = ''update'' then
        Some (ebind (subscript (JObj (field_data operation)) ''field_name'') (\<lambda>field_name.
              ebind (subscript (JObj (field_data operation)) ''changes'') (\<lambda>changes.
                update_field_validation lines field_name changes)))
      else Some (Inr lines))"

definition joined :: "(py_error + string list) option \<Rightarrow> (py_error + string) option" where
  "joined r = map_option (map_sum id (join [CHR 0x0A])) r"

definition apply_service_operations ::
  "java_structure \<Rightarrow> field_operation list \<Rightarrow> json \<Rightarrow> (py_error + string) option" where
  "apply_service_operations structure operations service_info =
     joined (py_for (service_step service_info) operations (file_lines structure))"

subsection \<open>The model file and the DTO files\<close>

text \<open>
  The texts that are inserted come from \<^verbatim>\<open>_generate_model_field_code\<close>,
  \<^verbatim>\<open>_generate_dto_field_code\<close>, the accessor template of \<^verbatim>\<open>_update_dto_methods\<close> and
  \<^verbatim>\<open>re.sub\<close>. They are parameters: the rewriting is defined for every such function.
\<close>

record generators =
  model_field_code :: "json \<Rightarrow> py_error + string"
  dto_field_code :: "json \<Rightarrow> string \<Rightarrow> py_error + string"
  getter_setter :: "json \<Rightarrow> py_error + string list"
  re_sub :: "string \<Rightarrow> string \<Rightarrow> string \<Rightarrow> py_error + string"

text \<open>
  \<^verbatim>\<open>existing_fields\<close> is a dictionary from names to fields, so the last field of a name
  counts; a list or a dictionary as field name cannot be looked up. The line numbers are
  those of the file as it was parsed.
\<close>

fun lookup_field :: "(string \<times> nat) list \<Rightarrow> json \<Rightarrow> py_error + nat option" where
  "lookup_field existing_fields (JStr s) = Inr (map_of (rev existing_fields) s)"
| "lookup_field existing_fields (JArr xs) = Inl TypeError"
| "lookup_field existing_fields (JObj kvs) = Inl TypeError"
| "lookup_field existing_fields v = Inr None"

definition last_line :: "(string \<times> nat) list \<Rightarrow> int" where
  "last_line existing_fields = foldl (\<lambda>last (name, line_number). if int line_number > last then int line_number else last) (- 1) existing_fields"

fun find_class_start :: "json \<Rightarrow> string list \<Rightarrow> nat \<Rightarrow> int \<Rightarrow> py_error + int" where
  "find_class_start service_info [] i class_start = Inr class_start"
| "find_class_start service_info (line # rest) i class_start =
     (if str_in ''public class'' line
      then ebind (py_get service_info ''entity'' (JStr [])) (\<lambda>entity.
             case entity of
               JStr e \<Rightarrow>
                 find_class_start service_info rest (i + 1)
                   (if str_in e line then int i else class_start)
             | _ \<Rightarrow> Inl TypeError)
      else find_class_start service_info rest (i + 1) class_start)"

text \<open>
  Removing a field: from the line of the declaration upwards, the annotation, comment and
  empty lines belong to the field; as many lines as that block has are removed at its start.
\<close>

definition in_field_block :: "string \<Rightarrow> bool" where
  "in_field_block line =
     (prefix ''@'' (py_strip line) \<or> prefix ''*'' (py_strip line) \<or>
      prefix ''/**'' (py_strip line) \<or> py_strip line = [])"

fun block_start :: "string list \<Rightarrow> nat \<Rightarrow> py_error + nat" where
  "block_start lines 0 = Inr 0"
| "block_start lines (Suc k) =
     (if k < length lines
      then (if in_field_block (lines ! k) then block_start lines k else Inr (Suc k))
      else Inl IndexError)"

fun pop_times :: "nat \<Rightarrow> nat \<Rightarrow> string list \<Rightarrow> string list" where
  "pop_times 0 start_line lines = lines"
| "pop_times (Suc k) start_line lines =
     pop_times k start_line (if start_line < length lines then py_pop start_line lines else lines)"

definition remove_field_block :: "string list \<Rightarrow> nat \<Rightarrow> py_error + string list" where
  "remove_field_block lines line_number =
     ebind (block_start lines line_number) (\<lambda>start_line.
       Inr (pop_times (line_number - start_line + 1) start_line lines))"

text \<open>
  \<^verbatim>\<open>_update_field_annotations\<close>: the validation annotations above the declaration are
  removed, and the new ones are inserted at the line of the declaration.
\<close>

definition is_validation_annotation :: "string \<Rightarrow> bool" where
  "is_validation_annotation line =
     list_ex (\<lambda>anno. str_in anno line) [''@NotNull'', ''@Size'', ''@DecimalMin'', ''@DecimalMax'']"

fun drop_annotations :: "nat \<Rightarrow> string list \<Rightarrow> int \<Rightarrow> py_error + string list \<times> int" where
  "drop_annotations 0 lines field_line = Inr (lines, field_line)"
| "drop_annotations (Suc i) lines field_line =
     (if i < length lines
      then (if prefix ''@'' (py_strip (lines ! i))
            then (if is_validation_annotation (lines ! i)
                  then drop_annotations i (py_pop i lines) (field_line - 1)
                  else drop_annotations i lines field_line)
            else Inr (lines, field_line))
      else Inl IndexError)"

definition update_field_annotations ::
  "(json \<Rightarrow> string) \<Rightarrow> string list \<Rightarrow> nat \<Rightarrow> json \<Rightarrow> py_error + string list" where
  "update_field_annotations repr lines line_number validation =
     ebind (drop_annotations line_number lines (int line_number)) (\<lambda>(lines1, field_line).
     ebind (py_get validation ''required'' JNull) (\<lambda>required.
     ebind (py_get validation ''maxLength'' JNull) (\<lambda>max_length.
     ebind (if truthy max_length
            then ebind (subscript validation ''maxLength'') (\<lambda>m.
                   Inr [''    @Size(max = '' @ fstr repr m @ '', message = '' @ [CHR 0x22] @
                        ''Field too long'' @ [CHR 0x22] @ '')''])
            else Inr []) (\<lambda>size_annotation.
       Inr (insert_lines field_line
              ((if truthy required
                then [''    @NotNull(message = '' @ [CHR 0x22] @ ''Field is required'' @
                      [CHR 0x22] @ '')'']
                else []) @ size_annotation)
              lines1)))))"

text \<open>The type change of an Update operation, on the recorded line of the field.\<close>

definition sql_to_java_type :: "json \<Rightarrow> py_error + string" where
  "sql_to_java_type sql_type =
     (case sql_type of
        JStr s \<Rightarrow>
          Inr (case map_of [(''BIGSERIAL'', ''Long''), (''BIGINT'', ''Long''),
                            (''INTEGER'', ''Integer''), (''DECIMAL'', ''BigDecimal''),
                            (''VARCHAR'', ''String''), (''TEXT'', ''String''),
                            (''TIMESTAMP'', ''LocalDateTime''), (''DATE'', ''LocalDate''),
                            (''BOOLEAN'', ''Boolean'')]
                     (py_upper (takeWhile (\<lambda>c. c \<noteq> CHR ''('') s)) of
                 Some java_type \<Rightarrow> java_type
               | None \<Rightarrow> ''String'')
      | _ \<Rightarrow> Inl AttributeError)"

definition field_pattern :: "string \<Rightarrow> string" where
  "field_pattern field_name =
     ''private'' @ [CHR 0x5C] @ ''s+'' @ [CHR 0x5C] @ ''w+(?:<.*?>)?'' @ [CHR 0x5C] @ ''s+'' @
     field_name @ '';''"

definition update_field_type ::
  "generators \<Rightarrow> string list \<Rightarrow> string \<Rightarrow> nat \<Rightarrow> json \<Rightarrow> py_error + string list" where
  "update_field_type g lines field_name field_line changes =
     ebind (subscript changes ''type'') (\<lambda>new_type.
     ebind (sql_to_java_type new_type) (\<lambda>java_type.
       if field_line < length lines
       then ebind (re_sub g (field_pattern field_name)
                     (''private '' @ java_type @ '' '' @ field_name @ '';'') (lines ! field_line))
              (\<lambda>line. Inr (lines[field_line := line]))
       else Inl IndexError))"

text \<open>
  \<^verbatim>\<open>_apply_model_operations\<close>: one operation on the lines and the line of the last field,
  and the loop over the reversed operations.
\<close>

definition model_step ::
  "(json \<Rightarrow> string) \<Rightarrow> generators \<Rightarrow> int \<Rightarrow> (string \<times> nat) list \<Rightarrow> field_operation \<Rightarrow>
   string list \<times> int \<Rightarrow> py_error + string list \<times> int" where
  "model_step repr g class_start existing_fields operation state =
     (case state of (lines, last_field_line) \<Rightarrow>
      if action operation = ''add'' then
        ebind (subscript (JObj (field_data operation)) ''field'') (\<lambda>field.
        ebind (model_field_code g field) (\<lambda>field_code.
          Inr (insert_lines
                 (if last_field_line > - 1 then last_field_line + 1 else class_start + 2)
                 (split_on (CHR 0x0A) field_code) lines,
               last_field_line + int (length (split_on (CHR 0x0A) field_code)))))
      else if action operation = ''remove'' then
        ebind (subscript (JObj (field_data operation)) ''field_name'') (\<lambda>field_name.
        ebind (lookup_field existing_fields field_name) (\<lambda>found.
          case found of
            None \<Rightarrow> Inr (lines, last_field_line)
          | Some line_number \<Rightarrow>
              ebind (remove_field_block lines line_number) (\<lambda>lines1.
                Inr (lines1, last_field_line))))
      else if action operation = ''update'' then
        ebind (subscript (JObj (field_data operation)) ''field_name'') (\<lambda>field_name.
        ebind (subscript (JObj (field_data operation)) ''changes'') (\<lambda>changes.
        ebind (lookup_field existing_fields field_name) (\<lambda>found.
          case found of
            None \<Rightarrow> Inr (lines, last_field_line)
          | Some line_number \<Rightarrow>
              ebind (py_in ''type'' changes) (\<lambda>has_type.
              ebind (if has_type
                     then update_field_type g lines (fstr repr field_name) line_number changes
                     else Inr lines) (\<lambda>lines1.
              ebind (py_in ''validation'' changes) (\<lambda>has_validation.
              ebind (if has_validation
                     then ebind (subscript changes ''validation'') (\<lambda>validation.
                            update_field_annotations repr lines1 line_number validation)
                     else Inr lines1) (\<lambda>lines2.
                Inr (lines2, last_field_line))))))))
      else Inr (lines, last_field_line))"

definition text_of :: "(py_error + string list \<times> int) option \<Rightarrow> (py_error + string) option" where
  "text_of r = map_option (map_sum id (\<lambda>(lines, n). join [CHR 0x0A] lines)) r"

definition apply_model_operations ::
  "(json \<Rightarrow> string) \<Rightarrow> generators \<Rightarrow> java_structure \<Rightarrow> field_operation list \<Rightarrow> json \<Rightarrow>
   (py_error + string) option" where
  "apply_model_operations repr g structure operations service_info =
     (case find_class_start service_info (file_lines structure) 0 (- 1) of
        Inl e \<Rightarrow> Some (Inl e)
      | Inr class_start \<Rightarrow>
          text_of
            (py_for (\<lambda>operation state.
                       Some (model_step repr g class_start (file_fields structure) operation state))
               (reversed operations)
               (file_lines structure,
                if file_lines structure = [] then - 1 else last_line (file_fields structure))))"

text \<open>
  \<^verbatim>\<open>_apply_dto_operations\<close>: the loop over the reversed operations, and then
  \<^verbatim>\<open>_update_dto_methods\<close>, a loop over the operations that inserts the accessors before
  the end of the class. The updater has no method \<^verbatim>\<open>_update_dto_field\<close>, so the call
  raises.
\<close>

definition skipped_in_request :: "string \<Rightarrow> json \<Rightarrow> py_error + bool" where
  "skipped_in_request dto_type field =
     (if dto_type = ''request''
      then ebind (py_get field ''autoGenerated'' (JBool False)) (\<lambda>auto_generated.
             Inr (truthy auto_generated))
      else Inr False)"

definition dto_step ::
  "generators \<Rightarrow> string \<Rightarrow> (string \<times> nat) list \<Rightarrow> field_operation \<Rightarrow>
   string list \<times> int \<Rightarrow> py_error + string list \<times> int" where
  "dto_step g dto_type existing_fields operation state =
     (case state of (lines, last_field_line) \<Rightarrow>
      if action operation = ''add'' then
        ebind (subscript (JObj (field_data operation)) ''field'') (\<lambda>field.
        ebind (skipped_in_request dto_type field) (\<lambda>skipped.
          if skipped then Inr (lines, last_field_line)
          else
        ebind (dto_field_code g field dto_type) (\<lambda>field_code.
          Inr (insert_lines
                 (if last_field_line > - 1 then last_field_line + 1 else int (length lines) - 5)
                 (split_on (CHR 0x0A) field_code) lines,
               last_field_line + int (length (split_on (CHR 0x0A) field_code))))))
      else if action operation = ''remove'' then
        ebind (subscript (JObj (field_data operation)) ''field_name'') (\<lambda>field_name.
        ebind (lookup_field existing_fields field_name) (\<lambda>found.
          case found of
            None \<Rightarrow> Inr (lines, last_field_line)
          | Some line_number \<Rightarrow>
              ebind (remove_field_block lines line_number) (\<lambda>lines1.
                Inr (lines1, last_field_line))))
      else if action operation = ''update'' then
        ebind (subscript (JObj (field_data operation)) ''field_name'') (\<lambda>field_name.
        ebind (subscript (JObj (field_data operation)) ''changes'') (\<lambda>changes.
        ebind (lookup_field existing_fields field_name) (\<lambda>found.
          case found of
            None \<Rightarrow> Inr (lines, last_field_line)
          | Some line_number \<Rightarrow> Inl AttributeError)))
      else Inr (lines, last_field_line))"

definition dto_method_step ::
  "generators \<Rightarrow> string \<Rightarrow> field_operation \<Rightarrow> string list \<times> int \<Rightarrow>
   py_error + string list \<times> int" where
  "dto_method_step g dto_type operation state =
     (case state of (lines, class_end) \<Rightarrow>
      if action operation = ''add'' then
        ebind (subscript (JObj (field_data operation)) ''field'') (\<lambda>field.
        ebind (skipped_in_request dto_type field) (\<lambda>skipped.
          if skipped then Inr (lines, class_end)
          else
        ebind (getter_setter g field) (\<lambda>getter_setter_lines.
          Inr (insert_lines class_end getter_setter_lines lines,
               class_end + int (length getter_setter_lines)))))
      else Inr (lines, class_end))"

definition apply_dto_operations ::
  "generators \<Rightarrow> java_structure \<Rightarrow> field_operation list \<Rightarrow> json \<Rightarrow> string \<Rightarrow>
   (py_error + string) option" where
  "apply_dto_operations g structure operations service_info dto_type =
     text_of
       (then_apply
          (py_for (\<lambda>operation state.
                     Some (dto_step g dto_type (file_fields structure) operation state))
             (reversed operations)
             (file_lines structure, last_line (file_fields structure)))
          (\<lambda>(lines, last_field_line).
             py_for (\<lambda>operation state. Some (dto_method_step g dto_type operation state))
               operations (lines, int (length lines) - 2)))"


subsection \<open>The two orders, in the specification's words\<close>

text \<open>
  In list order the first operation of the list is applied first; in reverse order the last
  one is. An operation that raises, or does not return, ends the rewriting.
\<close>

definition in_list_order ::
  "('a \<Rightarrow> 's \<Rightarrow> (py_error + 's) option) \<Rightarrow> 'a list \<Rightarrow> 's \<Rightarrow> (py_error + 's) option" where
  "in_list_order step ops s = foldl (\<lambda>r op. then_apply r (step op)) (Some (Inr s)) ops"

definition in_reverse_order ::
  "('a \<Rightarrow> 's \<Rightarrow> (py_error + 's) option) \<Rightarrow> 'a list \<Rightarrow> 's \<Rightarrow> (py_error + 's) option" where
  "in_reverse_order step ops s = foldr (\<lambda>op r. then_apply r (step op)) ops (Some (Inr s))"


subsection \<open>Example files\<close>

definition sku_service :: java_structure where
  "sku_service =
     \<lparr>file_lines =
        [''public class ProductService {'',
         ''    private void validateCreateRequest(ProductRequest request) {'',
         ''        requireText(request.getName());'',
         ''    }'',
         ''}''],
      file_fields = []\<rparr>"

definition remove_sku :: field_operation where
  "remove_sku =
     \<lparr>action = ''remove'',
      field_data = [(''action'', JStr ''remove''), (''field_name'', JStr ''sku'')]\<rparr>"

definition add_sku :: field_operation where
  "add_sku =
     \<lparr>action = ''add'',
      field_data = [(''action'', JStr ''add''),
        (''field'', JObj [(''name'', JStr ''sku''), (''type'', JStr ''VARCHAR(32)''),
                          (''javaType'', JStr ''String''),
                          (''validation'', JObj [(''required'', JBool True)])])]\<rparr>"

definition product_model :: java_structure where
  "product_model =
     \<lparr>file_lines =
        [''public class Product {'',
         ''    private Long id;'',
         ''    private String name;'',
         ''}''],
      file_fields = [(''id'', 1), (''name'', 2)]\<rparr>"

definition remove_field :: "string \<Rightarrow> field_operation" where
  "remove_field n =
     \<lparr>action = ''remove'',
      field_data = [(''action'', JStr ''remove''), (''field_name'', JStr n)]\<rparr>"

definition sku_checked :: "string list" where
  "sku_checked =
     [''public class ProductService {'',
      ''    private void validateCreateRequest(ProductRequest request) {'',
      ''        if (!StringUtils.hasText(request.getSku())) {'' @ [CHR 0x0A] @
      ''            throw new BusinessException('' @ [CHR 0x22] @ ''Sku is required'' @
      [CHR 0x22] @ '');'' @ [CHR 0x0A] @
      ''        }'',
      ''        requireText(request.getName());'',
      ''    }'',
      ''}'']"

definition no_generators :: generators where
  "no_generators =
     \<lparr>model_field_code = (\<lambda>field. Inl TemplateError),
      dto_field_code = (\<lambda>field dto_type. Inl TemplateError),
      getter_setter = (\<lambda>field. Inl TemplateError),
      re_sub = (\<lambda>pattern replacement line. Inr line)\<rparr>"

section \<open>Basic facts\<close>

lemma ebind_Inl [simp]: "ebind (Inl e) f = Inl e"
  by (simp add: ebind_def)

lemma ebind_Inr [simp]: "ebind (Inr x) f = f x"
  by (simp add: ebind_def)

lemma str_in_sublist: "str_in sub s = sublist sub s"
  by (induction s) (auto simp: sublist_Cons_right)


section \<open>Safety validation\<close>

text \<open>
  C10. Safety validation returns the empty error list for every Add operation, whatever
  its field descriptor, the service and the project tree are.
\<close>

theorem add_is_never_blocked:
  "validate_operation_safety repr decode \<lparr>action = ''add'', field_data = d\<rparr> service_info
     project_root = Inr []"
  by (simp add: validate_operation_safety_def)

subsection \<open>Type changes\<close>

lemma upper_char_same_letter:
  assumes "d \<in> set ''VARCHAR''"
  shows "upper_char c = d \<longleftrightarrow> same_letter c d"
proof -
  let ?tab = "zip ''abcdefghijklmnopqrstuvwxyz'' ''ABCDEFGHIJKLMNOPQRSTUVWXYZ''"
  have dist: "distinct (map fst ?tab)" by simp
  from assms have "d = CHR ''V'' \<or> d = CHR ''A'' \<or> d = CHR ''R'' \<or> d = CHR ''C'' \<or> d = CHR ''H''"
    by simp blast
  then have nd: "map_of ?tab d = None" by (elim disjE) simp_all
  have iff: "(c, d) \<in> set ?tab \<longleftrightarrow> map_of ?tab c = Some d"
    using map_of_eq_Some_iff[OF dist, of c d] by blast
  show ?thesis
  proof (cases "map_of ?tab c")
    case None
    then show ?thesis unfolding upper_char_def same_letter_def iff by simp
  next
    case (Some u)
    have "c \<noteq> d" using Some nd by auto
    then show ?thesis using Some unfolding upper_char_def same_letter_def iff by simp
  qed
qed

lemma map_upper_same_letter:
  assumes "set v \<subseteq> set ''VARCHAR''"
  shows "map upper_char w = v \<longleftrightarrow> list_all2 same_letter w v"
  using assms
proof (induction v arbitrary: w)
  case Nil
  then show ?case by simp
next
  case (Cons d v)
  then have d: "d \<in> set ''VARCHAR''" and v: "set v \<subseteq> set ''VARCHAR''" by auto
  show ?case
  proof (cases w)
    case Nil
    then show ?thesis by simp
  next
    case (Cons c w')
    with Cons.IH[OF v, of w'] upper_char_same_letter[OF d, of c] show ?thesis by simp
  qed
qed

lemma sublist_map_iff:
  "sublist v (map f t) \<longleftrightarrow> (\<exists>w. sublist w t \<and> map f w = v)"
proof
  assume "sublist v (map f t)"
  then obtain ps ss where h: "map f t = ps @ (v @ ss)" by (auto simp: sublist_def)
  from h[unfolded map_eq_append_conv] obtain p r where
    t: "t = p @ r" and r: "v @ ss = map f r" by blast
  from r[symmetric, unfolded map_eq_append_conv] obtain w s where
    w: "r = w @ s" "v = map f w" by blast
  with t have "t = p @ w @ s" by simp
  then have "sublist w t" unfolding sublist_def by blast
  with w(2) show "\<exists>w. sublist w t \<and> map f w = v" by blast
next
  assume "\<exists>w. sublist w t \<and> map f w = v"
  then obtain w ps ss where "t = ps @ w @ ss" "map f w = v" by (auto simp: sublist_def)
  then have "map f t = map f ps @ v @ map f ss" by simp
  then show "sublist v (map f t)" unfolding sublist_def by blast
qed

lemma str_in_upper_varchar: "str_in ''VARCHAR'' (py_upper t) \<longleftrightarrow> names_varchar t"
proof -
  have "str_in ''VARCHAR'' (py_upper t) \<longleftrightarrow> (\<exists>w. sublist w t \<and> map upper_char w = ''VARCHAR'')"
    by (simp only: str_in_sublist py_upper_def sublist_map_iff)
  also have "\<dots> \<longleftrightarrow> (\<exists>w. sublist w t \<and> list_all2 same_letter w ''VARCHAR'')"
    using map_upper_same_letter[of "''VARCHAR''"] by simp
  finally show ?thesis by (simp add: names_varchar_def Bex_def)
qed

lemma update_safety:
  assumes "map_of d ''field_name'' = Some (JStr f)"
    and "map_of d ''changes'' = Some (JObj ch)"
    and "map_of ch ''type'' = Some (JStr t)"
  shows "validate_operation_safety repr decode \<lparr>action = ''update'', field_data = d\<rparr>
           service_info project_root =
         Inr ((if py_lower f \<in> set [''id'', ''uuid'']
               then [''Cannot modify primary key field: '' @ f] else []) @
              (if \<not> str_in ''VARCHAR'' (py_upper t)
               then [''Type change for field '' @ f @ '' may cause data loss''] else []))"
  using assms
  by (simp add: validate_operation_safety_def is_primary_key_def is_type_change_safe_def)

text \<open>
  C8, as the code has it. For an Update operation whose changes carry a storage type,
  safety validation returns a list of errors, and the possible-data-loss error of the field
  is in that list exactly when the new type does not name \<^verbatim>\<open>VARCHAR\<close>, in whatever letter
  case. The test reads the new type only: neither the type the field had nor a length.
\<close>

theorem type_change_flagged_iff_not_varchar:
  assumes "map_of d ''field_name'' = Some (JStr f)"
    and "map_of d ''changes'' = Some (JObj ch)"
    and "map_of ch ''type'' = Some (JStr t)"
  shows "\<exists>errs.
           validate_operation_safety repr decode \<lparr>action = ''update'', field_data = d\<rparr>
             service_info project_root = Inr errs \<and>
           ((''Type change for field '' @ f @ '' may cause data loss'') \<in> set errs
              \<longleftrightarrow> \<not> names_varchar t)"
proof -
  have "(''Type change for field '' @ f @ '' may cause data loss'') \<in>
          set ((if py_lower f \<in> set [''id'', ''uuid'']
                then [''Cannot modify primary key field: '' @ f] else []) @
               (if \<not> str_in ''VARCHAR'' (py_upper t)
                then [''Type change for field '' @ f @ '' may cause data loss''] else []))
        \<longleftrightarrow> \<not> str_in ''VARCHAR'' (py_upper t)"
    by simp
  then show ?thesis
    unfolding str_in_upper_varchar update_safety[OF assms] by blast
qed

theorem type_change_flagged_iff_not_varchar_witness:
  "validate_operation_safety (\<lambda>v. []) decode_ascii
     \<lparr>action = ''update'',
      field_data = [(''field_name'', JStr ''price''),
                    (''changes'', JObj [(''type'', JStr ''INTEGER'')])]\<rparr>
     (JObj []) (Dir []) = Inr [''Type change for field price may cause data loss''] \<and>
   \<not> names_varchar ''INTEGER'' \<and>
   validate_operation_safety (\<lambda>v. []) decode_ascii
     \<lparr>action = ''update'',
      field_data = [(''field_name'', JStr ''title''),
                    (''changes'', JObj [(''type'', JStr ''varchar(64)'')])]\<rparr>
     (JObj []) (Dir []) = Inr [] \<and>
   names_varchar ''varchar(64)''"
proof -
  have a: "validate_operation_safety (\<lambda>v. []) decode_ascii
     \<lparr>action = ''update'',
      field_data = [(''field_name'', JStr ''price''),
                    (''changes'', JObj [(''type'', JStr ''INTEGER'')])]\<rparr>
     (JObj []) (Dir []) = Inr [''Type change for field price may cause data loss'']"
    by code_simp
  have b: "validate_operation_safety (\<lambda>v. []) decode_ascii
     \<lparr>action = ''update'',
      field_data = [(''field_name'', JStr ''title''),
                    (''changes'', JObj [(''type'', JStr ''varchar(64)'')])]\<rparr>
     (JObj []) (Dir []) = Inr []"
    by code_simp
  from type_change_flagged_iff_not_varchar
         [of "[(''field_name'', JStr ''price''), (''changes'', JObj [(''type'', JStr ''INTEGER'')])]"
             "''price''" "[(''type'', JStr ''INTEGER'')]" "''INTEGER''"
             "\<lambda>v. []" decode_ascii "JObj []" "Dir []"] a
  have "\<not> names_varchar ''INTEGER''" by simp
  moreover from type_change_flagged_iff_not_varchar
         [of "[(''field_name'', JStr ''title''), (''changes'', JObj [(''type'', JStr ''varchar(64)'')])]"
             "''title''" "[(''type'', JStr ''varchar(64)'')]" "''varchar(64)''"
             "\<lambda>v. []" decode_ascii "JObj []" "Dir []"] b
  have "names_varchar ''varchar(64)''" by simp
  ultimately show ?thesis using a b by simp
qed

text \<open>
  C8, as the specification has it, fails on both sides. \<^verbatim>\<open>CHARACTER VARYING(255)\<close> is a
  character-varying type, and the change is flagged; \<^verbatim>\<open>VARCHAR(1)\<close> narrows every longer
  string column, and the change is not flagged.
\<close>

theorem varchar_test_reads_the_name_only:
  "validate_operation_safety (\<lambda>v. []) decode_ascii
     \<lparr>action = ''update'',
      field_data = [(''field_name'', JStr ''title''),
                    (''changes'', JObj [(''type'', JStr ''CHARACTER VARYING(255)'')])]\<rparr>
     product_service shop_tree = Inr [''Type change for field title may cause data loss''] \<and>
   validate_operation_safety (\<lambda>v. []) decode_ascii
     \<lparr>action = ''update'',
      field_data = [(''field_name'', JStr ''title''),
                    (''changes'', JObj [(''type'', JStr ''VARCHAR(1)'')])]\<rparr>
     product_service shop_tree = Inr []"
  by code_simp

subsection \<open>Primary keys and foreign keys\<close>

lemma entries_map_of: "map_of es k = Some n \<Longrightarrow> (k, n) \<in> set (entries es)"
  by (auto simp: entries_def dest: map_of_SomeD)

lemma reference_in_files_iff:
  "reference_in_files decode p xs \<longleftrightarrow>
     (\<exists>(name, n) \<in> set xs. \<exists>content. read_text decode n = Inr content \<and> str_in p content)"
proof (induction xs)
  case Nil
  then show ?case by simp
next
  case (Cons x xs)
  obtain name n where x: "x = (name, n)" by (cases x)
  show ?case
  proof (cases "read_text decode n")
    case (Inl e)
    with Cons x show ?thesis by simp
  next
    case (Inr content)
    with Cons x show ?thesis by auto
  qed
qed

text \<open>
  C3, as the code has it. Safety validation never returns the empty error list for a Remove
  of a field whose name is \<^verbatim>\<open>id\<close> in any letter case, for a Remove of a field that occurs
  as \<^verbatim>\<open>REFERENCES <table>(<field>)\<close> in the text of a \<^verbatim>\<open>.sql\<close> file of the migration
  directory, or for an Update of a field whose name is \<^verbatim>\<open>uuid\<close> in any letter case. The
  text of a file is what reading it in text mode returns: the file can be decoded, and its
  line endings are read as line feeds.
\<close>

theorem unsafe_operations_are_reported:
  "(map_of d1 ''field_name'' = Some (JStr f1) \<and> py_lower f1 = ''id'' \<longrightarrow>
      validate_operation_safety repr decode \<lparr>action = ''remove'', field_data = d1\<rparr> si1 tree1
        \<noteq> Inr [])
   \<and> (map_of d2 ''field_name'' = Some (JStr f2) \<and>
        subscript si2 ''table'' = Inr (JStr t) \<and>
        lookup tree2 migration_path = Some (Dir es) \<and>
        map_of es name = Some (File raw) \<and> suffix ''.sql'' name \<and>
        decode raw = Inr decoded \<and>
        str_in (''REFERENCES '' @ t @ ''('' @ f2 @ '')'') (universal_newlines decoded) \<longrightarrow>
      validate_operation_safety repr decode \<lparr>action = ''remove'', field_data = d2\<rparr> si2 tree2
        \<noteq> Inr [])
   \<and> (map_of d3 ''field_name'' = Some (JStr f3) \<and> py_lower f3 = ''uuid'' \<longrightarrow>
      validate_operation_safety repr decode \<lparr>action = ''update'', field_data = d3\<rparr> si3 tree3
        \<noteq> Inr [])"
proof (intro conjI impI)
  assume a: "map_of d1 ''field_name'' = Some (JStr f1) \<and> py_lower f1 = ''id''"
  show "validate_operation_safety repr decode \<lparr>action = ''remove'', field_data = d1\<rparr> si1 tree1
        \<noteq> Inr []"
    using a
    by (cases "has_foreign_key_references repr decode (JStr f1) si1 tree1")
       (simp_all add: validate_operation_safety_def is_primary_key_def)
next
  assume a: "map_of d2 ''field_name'' = Some (JStr f2) \<and>
        subscript si2 ''table'' = Inr (JStr t) \<and>
        lookup tree2 migration_path = Some (Dir es) \<and>
        map_of es name = Some (File raw) \<and> suffix ''.sql'' name \<and>
        decode raw = Inr decoded \<and>
        str_in (''REFERENCES '' @ t @ ''('' @ f2 @ '')'') (universal_newlines decoded)"
  then have "(name, File raw) \<in> set (filter (\<lambda>(name, n). suffix ''.sql'' name) (entries es))"
    by (simp add: entries_map_of)
  moreover from a have "read_text decode (File raw) = Inr (universal_newlines decoded)"
    by (simp add: read_text_def)
  ultimately have "reference_in_files decode (''REFERENCES '' @ t @ ''('' @ f2 @ '')'')
                     (filter (\<lambda>(name, n). suffix ''.sql'' name) (entries es))"
    using a unfolding reference_in_files_iff by blast
  with a have "has_foreign_key_references repr decode (JStr f2) si2 tree2 = Inr True"
    by (simp add: has_foreign_key_references_def)
  with a show "validate_operation_safety repr decode \<lparr>action = ''remove'', field_data = d2\<rparr> si2 tree2
        \<noteq> Inr []"
    by (simp add: validate_operation_safety_def is_primary_key_def)
next
  assume a: "map_of d3 ''field_name'' = Some (JStr f3) \<and> py_lower f3 = ''uuid''"
  show "validate_operation_safety repr decode \<lparr>action = ''update'', field_data = d3\<rparr> si3 tree3
        \<noteq> Inr []"
  proof (cases "map_of d3 ''changes''")
    case None
    with a show ?thesis by (simp add: validate_operation_safety_def)
  next
    case (Some ch)
    with a show ?thesis
      by (simp add: validate_operation_safety_def is_primary_key_def ebind_def
               split: sum.splits)
  qed
qed

theorem unsafe_operations_are_reported_witness:
  "(py_lower ''Id'' = ''id'' \<and>
    validate_operation_safety (\<lambda>v. []) decode_ascii \<lparr>action = ''remove'',
        field_data = [(''field_name'', JStr ''Id'')]\<rparr> (JObj []) (Dir []) \<noteq> Inr [])
   \<and> (lookup orders_tree migration_path =
         Some (Dir [(''V2__orders.sql'',
                     File ''customer_code BIGINT REFERENCES customers(code)'')]) \<and>
       decode_ascii ''customer_code BIGINT REFERENCES customers(code)'' =
         Inr ''customer_code BIGINT REFERENCES customers(code)'' \<and>
       str_in (''REFERENCES '' @ ''customers'' @ ''('' @ ''code'' @ '')'')
         (universal_newlines ''customer_code BIGINT REFERENCES customers(code)'') \<and>
       validate_operation_safety (\<lambda>v. []) decode_ascii \<lparr>action = ''remove'',
         field_data = [(''field_name'', JStr ''code'')]\<rparr> customer_service orders_tree
         \<noteq> Inr [])
   \<and> (py_lower ''UUID'' = ''uuid'' \<and>
       validate_operation_safety (\<lambda>v. []) decode_ascii \<lparr>action = ''update'',
         field_data = [(''field_name'', JStr ''UUID''), (''changes'', JObj [])]\<rparr>
         (JObj []) (Dir []) \<noteq> Inr [])"
proof -
  have h1: "py_lower ''Id'' = ''id''" by code_simp
  have h3: "py_lower ''UUID'' = ''uuid''" by code_simp
  have l: "lookup orders_tree migration_path =
         Some (Dir [(''V2__orders.sql'',
                     File ''customer_code BIGINT REFERENCES customers(code)'')])"
    by code_simp
  have t: "subscript customer_service ''table'' = Inr (JStr ''customers'')" by code_simp
  have d: "decode_ascii ''customer_code BIGINT REFERENCES customers(code)'' =
         Inr ''customer_code BIGINT REFERENCES customers(code)''" by code_simp
  have s: "str_in (''REFERENCES '' @ ''customers'' @ ''('' @ ''code'' @ '')'')
         (universal_newlines ''customer_code BIGINT REFERENCES customers(code)'')" by code_simp
  have e: "suffix ''.sql'' ''V2__orders.sql''" by (simp add: suffix_def)
  show ?thesis
    using unsafe_operations_are_reported
          [of "[(''field_name'', JStr ''Id'')]" "''Id''" "\<lambda>v. []" decode_ascii "JObj []" "Dir []"
              "[(''field_name'', JStr ''code'')]" "''code''" customer_service
              "''customers''" orders_tree
              "[(''V2__orders.sql'', File ''customer_code BIGINT REFERENCES customers(code)'')]"
              "''V2__orders.sql''" "''customer_code BIGINT REFERENCES customers(code)''"
              "''customer_code BIGINT REFERENCES customers(code)''"
              "[(''field_name'', JStr ''UUID''), (''changes'', JObj [])]" "''UUID''"
              "JObj []" "Dir []"]
          h1 h3 l t d s e
    by simp
qed

text \<open>
  C3, as the specification has it, fails for a reference that is in the file and not in the
  text read from it. In the first directory the file holds, beside the reference to
  \<^verbatim>\<open>customers(code)\<close>, a byte that the codec does not decode: reading raises, the file is
  skipped, and the Remove of \<^verbatim>\<open>code\<close> passes. In the second the referenced name holds a
  carriage return, which is read as a line feed, and the Remove of that field passes.
\<close>

theorem reference_on_disk_is_missed:
  "lookup accented_tree migration_path = Some (Dir [(''V2__orders.sql'', File accented_sql)]) \<and>
   str_in (''REFERENCES '' @ ''customers'' @ ''('' @ ''code'' @ '')'') accented_sql \<and>
   validate_operation_safety (\<lambda>v. []) decode_ascii
     \<lparr>action = ''remove'', field_data = [(''field_name'', JStr ''code'')]\<rparr>
     customer_service accented_tree = Inr [] \<and>
   lookup carriage_tree migration_path = Some (Dir [(''V2__orders.sql'', File carriage_sql)]) \<and>
   str_in (''REFERENCES '' @ ''customers'' @ ''('' @ carriage_name @ '')'') carriage_sql \<and>
   validate_operation_safety (\<lambda>v. []) decode_ascii
     \<lparr>action = ''remove'', field_data = [(''field_name'', JStr carriage_name)]\<rparr>
     customer_service carriage_tree = Inr []"
  by code_simp

section \<open>Construction of field operations\<close>

lemma str_in_quoted_add:
  "k \<in> set [''name'', ''type'', ''javaType''] \<Longrightarrow>
   str_in (quoted k) ''Add operation requires: ['name', 'type', 'javaType']''"
  by (auto simp: quoted_def)

lemma validate_add:
  assumes "\<forall>v. map_of d ''field'' = Some v \<longrightarrow> (\<exists>fd. v = JObj fd)"
  shows "validate \<lparr>action = ''add'', field_data = d\<rparr> =
           (if missing_attributes ''add'' d = [] then Inr ()
            else Inl (ValueError ''Add operation requires: ['name', 'type', 'javaType']''))"
proof (cases "map_of d ''field''")
  case None
  then show ?thesis
    by (simp add: validate_def valid_actions_def required_fields_def missing_attributes_def
          field_descriptor_def)
next
  case (Some v)
  with assms obtain fd where "v = JObj fd" by blast
  with Some show ?thesis
    by (simp add: validate_def valid_actions_def required_fields_def missing_attributes_def
          field_descriptor_def)
qed

text \<open>
  C5, as amended. For a payload whose \<^verbatim>\<open>field\<close> entry, when there is one, is an object:
  the construction succeeds exactly when the action, put in lower case, is one of
  \<^verbatim>\<open>add\<close>, \<^verbatim>\<open>update\<close>, \<^verbatim>\<open>remove\<close> and no required attribute of that variant is
  missing; the operation built carries the lower-case action and the payload; in every
  other case the construction raises \<^verbatim>\<open>ValueError\<close>, and when the action is a valid one
  the message contains the quoted name of a missing attribute.
\<close>

theorem construction_succeeds_iff_required_present:
  assumes "\<forall>v. map_of d ''field'' = Some v \<longrightarrow> (\<exists>fd. v = JObj fd)"
  shows "((\<exists>op. FieldOperation a d = Inr op) \<longleftrightarrow>
            py_lower a \<in> set valid_actions \<and> missing_attributes (py_lower a) d = [])
       \<and> (\<forall>op. FieldOperation a d = Inr op \<longrightarrow> op = \<lparr>action = py_lower a, field_data = d\<rparr>)
       \<and> (\<not> (py_lower a \<in> set valid_actions \<and> missing_attributes (py_lower a) d = []) \<longrightarrow>
            (\<exists>msg. FieldOperation a d = Inl (ValueError msg) \<and>
               (py_lower a \<in> set valid_actions \<longrightarrow>
                  (\<exists>k \<in> set (missing_attributes (py_lower a) d). str_in (quoted k) msg))))"
proof -
  consider (invalid) "py_lower a \<notin> set valid_actions"
    | (add) "py_lower a = ''add''" | (update) "py_lower a = ''update''"
    | (remove) "py_lower a = ''remove''"
    by (auto simp: valid_actions_def)
  then show ?thesis
  proof cases
    case invalid
    then show ?thesis by (simp add: FieldOperation_def validate_def)
  next
    case add
    have v: "py_lower a \<in> set valid_actions" using add by (simp add: valid_actions_def)
    show ?thesis
    proof (cases "missing_attributes ''add'' d = []")
      case True
      then show ?thesis using add v validate_add[OF assms] by (simp add: FieldOperation_def)
    next
      case False
      then obtain k where k: "k \<in> set (missing_attributes ''add'' d)"
        by (cases "missing_attributes ''add'' d") auto
      then have "k \<in> set [''name'', ''type'', ''javaType'']"
        by (auto simp: missing_attributes_def split: if_splits)
      then have "str_in (quoted k) ''Add operation requires: ['name', 'type', 'javaType']''"
        by (rule str_in_quoted_add)
      with k False show ?thesis
        using add v validate_add[OF assms] by (auto simp: FieldOperation_def)
    qed
  next
    case update
    then show ?thesis
      by (auto simp: FieldOperation_def validate_def valid_actions_def missing_attributes_def
            quoted_def)
  next
    case remove
    then show ?thesis
      by (auto simp: FieldOperation_def validate_def valid_actions_def missing_attributes_def
            quoted_def)
  qed
qed

theorem construction_succeeds_iff_required_present_witness:
  "map_of note_payload ''field'' =
     Some (JObj [(''name'', JStr ''note''), (''type'', JStr ''TEXT''),
                 (''javaType'', JStr ''String'')]) \<and>
   (\<exists>op. FieldOperation ''Add'' note_payload = Inr op) \<and>
   map_of [(''field_name'', JStr ''price'')] ''field'' = None \<and>
   (\<exists>msg. FieldOperation ''update'' [(''field_name'', JStr ''price'')] = Inl (ValueError msg) \<and>
      str_in (quoted ''changes'') msg)"
  using construction_succeeds_iff_required_present [of note_payload "''Add''"]
        construction_succeeds_iff_required_present
          [of "[(''field_name'', JStr ''price'')]" "''update''"]
  by (simp add: note_payload_def py_lower_def lower_char_def valid_actions_def
        missing_attributes_def field_descriptor_def)

text \<open>
  C5, as stated, fails: the action \<^verbatim>\<open>ADD\<close> is not one of \<^verbatim>\<open>add\<close>, \<^verbatim>\<open>update\<close>,
  \<^verbatim>\<open>remove\<close>, and the construction succeeds, because the constructor puts the action in
  lower case before it validates.
\<close>

theorem uppercase_action_is_accepted:
  "FieldOperation ''ADD'' note_payload = Inr \<lparr>action = ''add'', field_data = note_payload\<rparr>
   \<and> ''ADD'' \<notin> set valid_actions"
  by (simp add: FieldOperation_def validate_def valid_actions_def required_fields_def
        py_lower_def lower_char_def note_payload_def)

section \<open>Impact analysis\<close>










lemma line_break_free_append [simp]:
  "line_break_free (xs @ ys) = (line_break_free xs \<and> line_break_free ys)"
  by (auto simp: line_break_free_def)

lemma line_break_free_Cons [simp]:
  "line_break_free (c # cs) = (c \<noteq> CHR 0x0A \<and> c \<noteq> CHR 0x0D \<and> line_break_free cs)"
  by (auto simp: line_break_free_def)

lemma line_break_free_Nil [simp]: "line_break_free []"
  by (simp add: line_break_free_def)









section \<open>The version of the next migration\<close>















section \<open>Snapshot round trip\<close>

lemma lookup_append:
  "lookup t (p @ q) = (case lookup t p of None \<Rightarrow> None | Some n \<Rightarrow> lookup n q)"
proof (induction p arbitrary: t)
  case Nil
  then show ?case by simp
next
  case (Cons k ks)
  then show ?case by (cases t) (simp_all split: option.splits)
qed

lemma lookup_empty [simp]: "lookup (Dir []) (k # ks) = None"
  by simp

lemma lookup_ancestor_dir:
  assumes "lookup t p = Some n" and "strict_prefix q p"
  shows "\<exists>es. lookup t q = Some (Dir es)"
proof -
  from assms(2) obtain k r where p: "p = q @ k # r"
    by (auto simp: strict_prefix_def prefix_def) (metis list.exhaust self_append_conv)
  with assms(1) obtain m where m: "lookup t q = Some m" "lookup m (k # r) = Some n"
    by (auto simp: lookup_append split: option.splits)
  then show ?thesis by (cases m) simp_all
qed

lemma put_lookup: "put t p n = Inr t' \<Longrightarrow> lookup t' p = Some n"
proof (induction t p n arbitrary: t' rule: put.induct)
  case (3 es k n)
  then show ?case by (auto simp: update_conv')
next
  case (4 es k k' ks n)
  then show ?case by (auto simp: update_conv' split: sum.splits)
qed simp_all

lemma put_other:
  "put t p n = Inr t' \<Longrightarrow> \<not> prefix p q \<Longrightarrow> \<not> prefix q p \<Longrightarrow> lookup t' q = lookup t q"
proof (induction t p n arbitrary: t' q rule: put.induct)
  case (3 es k n)
  then show ?case by (cases q) (auto simp: update_conv')
next
  case (4 es k k' ks n)
  from "4.prems"(3) obtain j qs where q: "q = j # qs" by (cases q) auto
  from "4.prems"(1) obtain m' where
    m': "put (case map_of es k of None \<Rightarrow> Dir [] | Some m \<Rightarrow> m) (k' # ks) n = Inr m'"
    and t': "t' = Dir (AList.update k m' es)"
    by (auto split: sum.splits)
  show ?case
  proof (cases "j = k")
    case False
    with q t' show ?thesis by (simp add: update_conv')
  next
    case True
    with q "4.prems" have inc: "\<not> prefix (k' # ks) qs" "\<not> prefix qs (k' # ks)" by auto
    from "4.IH"[OF m' inc] have
      "lookup m' qs = lookup (case map_of es k of None \<Rightarrow> Dir [] | Some m \<Rightarrow> m) qs" .
    moreover from inc(2) have "qs \<noteq> []" by auto
    ultimately show ?thesis using q True t'
      by (cases qs) (auto simp: update_conv' split: option.splits)
  qed
qed simp_all

lemma put_ancestor:
  "put t p n = Inr t' \<Longrightarrow> strict_prefix q p \<Longrightarrow> \<exists>es. lookup t' q = Some (Dir es)"
  using lookup_ancestor_dir put_lookup by blast

lemma put_ok:
  "p \<noteq> [] \<Longrightarrow> (\<forall>q c. strict_prefix q p \<longrightarrow> lookup t q \<noteq> Some (File c)) \<Longrightarrow>
   \<exists>t'. put t p n = Inr t'"
proof (induction t p n rule: put.induct)
  case (1 t n)
  then show ?case by simp
next
  case (2 c k ks n)
  from "2.prems"(2)[rule_format, of "[]" c] show ?case by simp
next
  case (3 es k n)
  then show ?case by simp
next
  case (4 es k k' ks n)
  let ?m = "case map_of es k of None \<Rightarrow> Dir [] | Some m \<Rightarrow> m"
  have "\<forall>q c. strict_prefix q (k' # ks) \<longrightarrow> lookup ?m q \<noteq> Some (File c)"
  proof (intro allI impI)
    fix q c assume sp: "strict_prefix q (k' # ks)"
    then have "strict_prefix (k # q) (k # k' # ks)" by simp
    with "4.prems"(2) have nf: "lookup (Dir es) (k # q) \<noteq> Some (File c)" by blast
    show "lookup ?m q \<noteq> Some (File c)"
    proof (cases "map_of es k")
      case None
      then show ?thesis by (cases q) simp_all
    next
      case (Some m)
      with nf show ?thesis by simp
    qed
  qed
  with "4.IH" obtain m' where "put ?m (k' # ks) n = Inr m'" by blast
  then show ?case by simp
qed

lemma remove_other:
  "\<not> prefix p q \<Longrightarrow> \<not> prefix q p \<Longrightarrow> lookup (remove t p) q = lookup t q"
proof (induction t p arbitrary: q rule: remove.induct)
  case (3 es k)
  then show ?case by (cases q) (auto simp: delete_conv')
next
  case (4 es k k' ks)
  from "4.prems"(2) obtain j qs where q: "q = j # qs" by (cases q) auto
  show ?case
  proof (cases "map_of es k")
    case None
    then show ?thesis by simp
  next
    case (Some m)
    show ?thesis
    proof (cases "j = k")
      case False
      with q Some show ?thesis by (simp add: update_conv')
    next
      case True
      with q "4.prems" have inc: "\<not> prefix (k' # ks) qs" "\<not> prefix qs (k' # ks)" by auto
      from "4.IH"[OF Some inc] q True Some show ?thesis by (simp add: update_conv')
    qed
  qed
qed simp_all

lemma remove_lookup: "p \<noteq> [] \<Longrightarrow> lookup (remove t p) p = None"
proof (induction t p rule: remove.induct)
  case (3 es k)
  then show ?case by (simp add: delete_conv')
next
  case (4 es k k' ks)
  then show ?case by (cases "map_of es k") (simp_all add: update_conv')
qed simp_all

lemma remove_ancestor:
  "strict_prefix q p \<Longrightarrow> lookup t q = Some (Dir es) \<Longrightarrow>
   \<exists>es'. lookup (remove t p) q = Some (Dir es')"
proof (induction t p arbitrary: q es rule: remove.induct)
  case (1 t)
  then show ?case by simp
next
  case (2 c k ks)
  then show ?case by simp
next
  case (3 es0 k)
  then have "q = []" by (cases q) auto
  then show ?case by simp
next
  case (4 es0 k k' ks)
  show ?case
  proof (cases q)
    case Nil
    then show ?thesis by (cases "map_of es0 k") simp_all
  next
    case (Cons j qs)
    with "4.prems"(1) have j: "j = k" and sp: "strict_prefix qs (k' # ks)" by auto
    from "4.prems"(2) Cons j obtain m where m: "map_of es0 k = Some m"
      "lookup m qs = Some (Dir es)"
      by (auto split: option.splits)
    from "4.IH"[OF m(1) sp m(2)] obtain es' where "lookup (remove m (k' # ks)) qs = Some (Dir es')"
      by blast
    with Cons j m show ?thesis by (simp add: update_conv')
  qed
qed

lemma incomparable_sym: "incomparable p q \<Longrightarrow> incomparable q p"
  by (simp add: incomparable_def)

lemma clear_above_kept:
  assumes frame: "\<forall>q. incomparable p q \<longrightarrow> lookup t2 q = lookup t q"
    and anc: "\<forall>q. strict_prefix q p \<longrightarrow> (\<exists>es. lookup t2 q = Some (Dir es))"
    and inc: "incomparable p g"
    and cl: "clear_above t g"
  shows "clear_above t2 g"
  unfolding clear_above_def
proof (intro allI impI)
  fix q c assume sp: "strict_prefix q g"
  show "lookup t2 q \<noteq> Some (File c)"
  proof (cases "prefix q p")
    case True
    have "q \<noteq> p" using sp inc by (auto simp: incomparable_def strict_prefix_def)
    with True have "strict_prefix q p" by (simp add: strict_prefix_def)
    with anc show ?thesis by auto
  next
    case False
    have "\<not> prefix p q"
    proof
      assume "prefix p q"
      with sp have "prefix p g" by (auto simp: strict_prefix_def)
      with inc show False by (simp add: incomparable_def)
    qed
    with False have "incomparable p q" by (simp add: incomparable_def)
    with frame have "lookup t2 q = lookup t q" by blast
    with cl sp show ?thesis by (simp add: clear_above_def)
  qed
qed

lemma put_clear:
  assumes "p \<noteq> []" and "clear_above t p"
  obtains t' where "put t p n = Inr t'" and "lookup t' p = Some n"
    and "\<forall>q. incomparable p q \<longrightarrow> lookup t' q = lookup t q"
    and "\<forall>q. strict_prefix q p \<longrightarrow> (\<exists>es. lookup t' q = Some (Dir es))"
proof -
  from put_ok[OF assms(1), of t n] assms(2) obtain t' where t': "put t p n = Inr t'"
    by (auto simp: clear_above_def)
  show ?thesis
  proof (rule that[OF t'])
    show "lookup t' p = Some n" using t' by (rule put_lookup)
    show "\<forall>q. incomparable p q \<longrightarrow> lookup t' q = lookup t q"
      using put_other[OF t'] by (auto simp: incomparable_def)
    show "\<forall>q. strict_prefix q p \<longrightarrow> (\<exists>es. lookup t' q = Some (Dir es))"
      using put_ancestor[OF t'] by blast
  qed
qed

lemma copy_all_saves:
  assumes "separate (map path_of fps)"
    and "\<forall>f \<in> set fps. lookup dir (path_of f) = None \<and> clear_above dir (path_of f)"
  shows "\<exists>dir'. copy_all tree fps dir = Inr dir' \<and>
           (\<forall>f \<in> set fps. lookup dir' (path_of f) = lookup tree (path_of f)) \<and>
           (\<forall>q. (\<forall>f \<in> set fps. incomparable (path_of f) q) \<longrightarrow> lookup dir' q = lookup dir q)"
  using assms
proof (induction fps arbitrary: dir)
  case Nil
  then show ?case by simp
next
  case (Cons f fps)
  let ?p = "path_of f"
  from Cons.prems(1) have ne: "?p \<noteq> []" and inc: "\<forall>g \<in> set fps. incomparable ?p (path_of g)"
    and sep: "separate (map path_of fps)" by auto
  from Cons.prems(2) have none: "lookup dir ?p = None" and cl: "clear_above dir ?p" by auto
  have step: "\<exists>dir1. copy_all tree (f # fps) dir = copy_all tree fps dir1 \<and>
                lookup dir1 ?p = lookup tree ?p \<and>
                (\<forall>q. incomparable ?p q \<longrightarrow> lookup dir1 q = lookup dir q) \<and>
                (\<forall>g \<in> set fps. clear_above dir1 (path_of g))"
  proof (cases "lookup tree ?p")
    case None
    with none Cons.prems(2) show ?thesis by (intro exI[of _ dir]) simp
  next
    case (Some n)
    from put_clear[OF ne cl, of n] obtain dir1 where d1: "put dir ?p n = Inr dir1"
      "lookup dir1 ?p = Some n"
      "\<forall>q. incomparable ?p q \<longrightarrow> lookup dir1 q = lookup dir q"
      "\<forall>q. strict_prefix q ?p \<longrightarrow> (\<exists>es. lookup dir1 q = Some (Dir es))"
      by blast
    have "copy_all tree (f # fps) dir = copy_all tree fps dir1"
      using Some none d1(1) by (cases n) (simp_all add: copytree_def copy2_def)
    moreover have "\<forall>g \<in> set fps. clear_above dir1 (path_of g)"
      using clear_above_kept[OF d1(3) d1(4)] inc Cons.prems(2) by auto
    ultimately show ?thesis using d1 Some by auto
  qed
  then obtain dir1 where d1: "copy_all tree (f # fps) dir = copy_all tree fps dir1"
    "lookup dir1 ?p = lookup tree ?p"
    "\<forall>q. incomparable ?p q \<longrightarrow> lookup dir1 q = lookup dir q"
    "\<forall>g \<in> set fps. clear_above dir1 (path_of g)"
    by blast
  have "\<forall>g \<in> set fps. lookup dir1 (path_of g) = None \<and> clear_above dir1 (path_of g)"
    using d1(3,4) inc Cons.prems(2) by auto
  from Cons.IH[OF sep this] obtain dir' where d': "copy_all tree fps dir1 = Inr dir'"
    "\<forall>g \<in> set fps. lookup dir' (path_of g) = lookup tree (path_of g)"
    "\<forall>q. (\<forall>g \<in> set fps. incomparable (path_of g) q) \<longrightarrow> lookup dir' q = lookup dir1 q"
    by blast
  have "\<forall>g \<in> set fps. incomparable (path_of g) ?p"
    using inc by (auto dest: incomparable_sym)
  with d'(3) have "lookup dir' ?p = lookup dir1 ?p" by blast
  with d1(2) have "lookup dir' ?p = lookup tree ?p" by simp
  moreover have "\<forall>q. (\<forall>g \<in> set (f # fps). incomparable (path_of g) q) \<longrightarrow>
                   lookup dir' q = lookup dir q"
    using d'(3) d1(3) by auto
  ultimately show ?case using d1(1) d'(1,2) by auto
qed

lemma restore_step:
  assumes ne: "p \<noteq> []" and fit: "fits t p n"
  obtains t2 where
    "(case n of
        Dir es \<Rightarrow>
          (case (if lookup t p \<noteq> None then rmtree t p else Inr t) of
             Inl e \<Rightarrow> Inl e
           | Inr t1 \<Rightarrow> copytree t1 p es False)
      | File c \<Rightarrow> copy2 t p c) = Inr t2"
    and "lookup t2 p = Some n"
    and "\<forall>q. incomparable p q \<longrightarrow> lookup t2 q = lookup t q"
    and "\<forall>q. strict_prefix q p \<longrightarrow> (\<exists>es. lookup t2 q = Some (Dir es))"
proof (cases n)
  case (File c)
  from fit File have nd: "\<forall>es. lookup t p \<noteq> Some (Dir es)"
    by (auto simp: fits_def same_kind_def split: option.splits node.splits)
  from fit have cl: "clear_above t p" by (simp add: fits_def)
  from put_clear[OF ne cl, of "File c"] obtain t2 where t2: "put t p (File c) = Inr t2"
    "lookup t2 p = Some (File c)"
    "\<forall>q. incomparable p q \<longrightarrow> lookup t2 q = lookup t q"
    "\<forall>q. strict_prefix q p \<longrightarrow> (\<exists>es. lookup t2 q = Some (Dir es))"
    by blast
  have "copy2 t p c = Inr t2"
    using nd t2(1) by (auto simp: copy2_def split: option.splits node.splits)
  with File t2 that show ?thesis by simp
next
  case (Dir es)
  from fit have cl: "clear_above t p" by (simp add: fits_def)
  have "\<exists>t1. (if lookup t p \<noteq> None then rmtree t p else Inr t) = Inr t1 \<and>
             lookup t1 p = None \<and> clear_above t1 p \<and>
             (\<forall>q. incomparable p q \<longrightarrow> lookup t1 q = lookup t q)"
  proof (cases "lookup t p")
    case None
    with cl show ?thesis by simp
  next
    case (Some m)
    with fit Dir obtain es0 where m: "lookup t p = Some (Dir es0)"
      by (cases m) (auto simp: fits_def same_kind_def)
    have "clear_above (remove t p) p"
      unfolding clear_above_def
    proof (intro allI impI)
      fix q c assume sp: "strict_prefix q p"
      from lookup_ancestor_dir[OF m sp] obtain e1 where "lookup t q = Some (Dir e1)" by blast
      from remove_ancestor[OF sp this] show "lookup (remove t p) q \<noteq> Some (File c)" by auto
    qed
    moreover have "\<forall>q. incomparable p q \<longrightarrow> lookup (remove t p) q = lookup t q"
      by (auto simp: incomparable_def remove_other)
    ultimately show ?thesis
      using m ne by (simp add: rmtree_def remove_lookup)
  qed
  then obtain t1 where t1: "(if lookup t p \<noteq> None then rmtree t p else Inr t) = Inr t1"
    "lookup t1 p = None" "clear_above t1 p"
    "\<forall>q. incomparable p q \<longrightarrow> lookup t1 q = lookup t q"
    by blast
  from put_clear[OF ne t1(3), of "Dir es"] obtain t2 where t2: "put t1 p (Dir es) = Inr t2"
    "lookup t2 p = Some (Dir es)"
    "\<forall>q. incomparable p q \<longrightarrow> lookup t2 q = lookup t1 q"
    "\<forall>q. strict_prefix q p \<longrightarrow> (\<exists>es. lookup t2 q = Some (Dir es))"
    by blast
  have "copytree t1 p es False = Inr t2"
    using t1(2) t2(1) by (simp add: copytree_def)
  with Dir t1 t2 that show ?thesis by simp
qed

lemma restore_all_restores:
  assumes "separate (map path_of fps)"
    and "\<forall>f \<in> set fps. \<forall>n. lookup dir (path_of f) = Some n \<longrightarrow> fits t (path_of f) n"
  shows "\<exists>t'. restore_all dir fps t = (True, t') \<and>
           (\<forall>f \<in> set fps. \<forall>n. lookup dir (path_of f) = Some n \<longrightarrow>
              lookup t' (path_of f) = Some n) \<and>
           (\<forall>q. (\<forall>f \<in> set fps. incomparable (path_of f) q) \<longrightarrow> lookup t' q = lookup t q)"
  using assms
proof (induction fps arbitrary: t)
  case Nil
  then show ?case by simp
next
  case (Cons f fps)
  let ?p = "path_of f"
  from Cons.prems(1) have ne: "?p \<noteq> []" and inc: "\<forall>g \<in> set fps. incomparable ?p (path_of g)"
    and sep: "separate (map path_of fps)" by auto
  have step: "\<exists>t2. restore_all dir (f # fps) t = restore_all dir fps t2 \<and>
                (\<forall>n. lookup dir ?p = Some n \<longrightarrow> lookup t2 ?p = Some n) \<and>
                (\<forall>q. incomparable ?p q \<longrightarrow> lookup t2 q = lookup t q) \<and>
                (\<forall>g \<in> set fps. \<forall>n. lookup dir (path_of g) = Some n \<longrightarrow> fits t2 (path_of g) n)"
  proof (cases "lookup dir ?p")
    case None
    with Cons.prems(2) show ?thesis by (intro exI[of _ t]) simp
  next
    case (Some n)
    with Cons.prems(2) have fit: "fits t ?p n" by simp
    from restore_step[OF ne fit] obtain t2 where t2:
      "(case n of
        Dir es \<Rightarrow>
          (case (if lookup t ?p \<noteq> None then rmtree t ?p else Inr t) of
             Inl e \<Rightarrow> Inl e
           | Inr t1 \<Rightarrow> copytree t1 ?p es False)
      | File c \<Rightarrow> copy2 t ?p c) = Inr t2"
      "lookup t2 ?p = Some n"
      "\<forall>q. incomparable ?p q \<longrightarrow> lookup t2 q = lookup t q"
      "\<forall>q. strict_prefix q ?p \<longrightarrow> (\<exists>es. lookup t2 q = Some (Dir es))"
      by blast
    have run: "restore_all dir (f # fps) t = restore_all dir fps t2"
      using Some t2(1) by (cases n) (auto split: sum.splits if_splits)
    have "\<forall>g \<in> set fps. \<forall>m. lookup dir (path_of g) = Some m \<longrightarrow> fits t2 (path_of g) m"
    proof (intro ballI allI impI)
      fix g m assume g: "g \<in> set fps" and m: "lookup dir (path_of g) = Some m"
      with Cons.prems(2) have fg: "fits t (path_of g) m" by simp
      from g inc have ig: "incomparable ?p (path_of g)" by blast
      from clear_above_kept[OF t2(3) t2(4) ig] fg have "clear_above t2 (path_of g)"
        by (simp add: fits_def)
      moreover from t2(3) ig have "lookup t2 (path_of g) = lookup t (path_of g)" by blast
      ultimately show "fits t2 (path_of g) m" using fg by (simp add: fits_def)
    qed
    with run t2 Some show ?thesis by auto
  qed
  then obtain t2 where t2: "restore_all dir (f # fps) t = restore_all dir fps t2"
    "\<forall>n. lookup dir ?p = Some n \<longrightarrow> lookup t2 ?p = Some n"
    "\<forall>q. incomparable ?p q \<longrightarrow> lookup t2 q = lookup t q"
    "\<forall>g \<in> set fps. \<forall>n. lookup dir (path_of g) = Some n \<longrightarrow> fits t2 (path_of g) n"
    by blast
  from Cons.IH[OF sep t2(4)] obtain t' where t': "restore_all dir fps t2 = (True, t')"
    "\<forall>g \<in> set fps. \<forall>n. lookup dir (path_of g) = Some n \<longrightarrow> lookup t' (path_of g) = Some n"
    "\<forall>q. (\<forall>g \<in> set fps. incomparable (path_of g) q) \<longrightarrow> lookup t' q = lookup t2 q"
    by blast
  have "\<forall>g \<in> set fps. incomparable (path_of g) ?p"
    using inc by (auto dest: incomparable_sym)
  with t'(3) have "lookup t' ?p = lookup t2 ?p" by blast
  with t2(2) have "\<forall>n. lookup dir ?p = Some n \<longrightarrow> lookup t' ?p = Some n" by simp
  moreover have "\<forall>q. (\<forall>g \<in> set (f # fps). incomparable (path_of g) q) \<longrightarrow>
                   lookup t' q = lookup t q"
    using t'(3) t2(3) by auto
  ultimately show ?case using t2(1) t'(1,2) by auto
qed

lemma path_of_service_main:
  "path_of (''src/main/java/com/vira/'' @ s) =
     [''src'', ''main'', ''java'', ''com'', ''vira''] @ path_of s"
  by (simp add: path_of_def)

lemma path_of_service_test:
  "path_of (''src/test/java/com/vira/'' @ s) =
     [''src'', ''test'', ''java'', ''com'', ''vira''] @ path_of s"
  by (simp add: path_of_def)

lemma separate_files_to_backup: "separate (map path_of (files_to_backup svc))"
  by (simp add: files_to_backup_def path_of_service_main path_of_service_test incomparable_def)
     (simp add: path_of_def)

lemma clear_above_empty: "clear_above (Dir []) p"
  unfolding clear_above_def
proof (intro allI impI)
  fix q c assume "strict_prefix q p"
  show "lookup (Dir []) q \<noteq> Some (File c)" by (cases q) simp_all
qed

lemma files_to_backup_nonempty: "\<forall>f \<in> set (files_to_backup svc). path_of f \<noteq> []"
  by (simp add: files_to_backup_def path_of_service_main path_of_service_test)
     (simp add: path_of_def)

lemma create_backup_saves:
  assumes "create_backup repr name now tree store = (Inr bid, store')"
  shows "\<exists>dir. map_of store' bid =
             Some \<lparr>saved = dir,
                   manifest_json =
                     Some \<lparr>backup_id = bid, m_service_name = name, timestamp = now,
                           files_backed_up = files_to_backup (fstr repr name)\<rparr>\<rparr> \<and>
           (\<forall>f \<in> set (files_to_backup (fstr repr name)). lookup dir (path_of f) = lookup tree (path_of f))"
proof -
  let ?fps = "files_to_backup (fstr repr name)"
  have sep: "separate (map path_of ?fps)" by (rule separate_files_to_backup)
  have "\<forall>f \<in> set ?fps. lookup (Dir []) (path_of f) = None \<and> clear_above (Dir []) (path_of f)"
    using files_to_backup_nonempty[of "fstr repr name"] by (auto simp: clear_above_empty neq_Nil_conv)
  from copy_all_saves[OF sep this, of tree] obtain dir where dir:
    "copy_all tree ?fps (Dir []) = Inr dir"
    "\<forall>f \<in> set ?fps. lookup dir (path_of f) = lookup tree (path_of f)"
    by blast
  from assms dir(1) have "map_of store' bid =
             Some \<lparr>saved = dir,
                   manifest_json =
                     Some \<lparr>backup_id = bid, m_service_name = name, timestamp = now,
                           files_backed_up = files_to_backup (fstr repr name)\<rparr>\<rparr>"
    by (auto simp: create_backup_def Let_def update_conv' split: if_splits)
  with dir(2) show ?thesis by blast
qed

lemma kinds_kept_fits:
  assumes kept: "kinds_kept tree tree' p" and n: "lookup tree p = Some n"
  shows "fits tree' p n"
proof -
  have "clear_above tree' p"
    unfolding clear_above_def
  proof (intro allI impI)
    fix q c assume sp: "strict_prefix q p"
    from lookup_ancestor_dir[OF n sp] obtain es where es: "lookup tree q = Some (Dir es)" by blast
    from sp have "q \<in> set (prefixes p)" by (simp add: strict_prefix_def)
    with kept have "same_kind (lookup tree q) (lookup tree' q)" by (simp add: kinds_kept_def)
    with es show "lookup tree' q \<noteq> Some (File c)" by (auto simp: same_kind_def)
  qed
  moreover from kept have "same_kind (lookup tree p) (lookup tree' p)"
    by (simp add: kinds_kept_def)
  ultimately show ?thesis using n by (simp add: fits_def)
qed

text \<open>
  Claim C4. For every project tree, when \<^verbatim>\<open>create_backup\<close> returns a backup id, then
  \<^verbatim>\<open>restore_backup\<close> with that id returns \<open>True\<close> and every regular file that was under one of
  the backed-up paths when the snapshot was made is in the project again, with the content it
  had then. The project tree may have changed in between: files modified, files and
  directories deleted or added. What is assumed of the change is that no directory on the way
  to a backed-up path was replaced by a regular file, and that the backed-up path itself did
  not change between directory and regular file.
\<close>

theorem snapshot_round_trip:
  assumes made: "create_backup repr name now tree store = (Inr bid, store')"
    and plain: "''..'' \<notin> set (path_of (fstr repr name))"
    and kept: "\<forall>f \<in> set (files_to_backup (fstr repr name)). kinds_kept tree tree' (path_of f)"
  shows "\<exists>restored. restore_backup bid tree' store' = (True, restored) \<and>
           (\<forall>f \<in> set (files_to_backup (fstr repr name)). \<forall>q c.
              lookup tree (path_of f @ q) = Some (File c) \<longrightarrow>
              lookup restored (path_of f @ q) = Some (File c))"
proof -
  let ?fps = "files_to_backup (fstr repr name)"
  from create_backup_saves[OF made] obtain dir where dir:
    "map_of store' bid =
       Some \<lparr>saved = dir,
             manifest_json =
               Some \<lparr>backup_id = bid, m_service_name = name, timestamp = now,
                     files_backed_up = ?fps\<rparr>\<rparr>"
    "\<forall>f \<in> set ?fps. lookup dir (path_of f) = lookup tree (path_of f)"
    by blast
  have run: "restore_backup bid tree' store' = restore_all dir ?fps tree'"
    using dir(1) by (simp add: restore_backup_def)
  have "\<forall>f \<in> set ?fps. \<forall>n. lookup dir (path_of f) = Some n \<longrightarrow> fits tree' (path_of f) n"
    using dir(2) kept kinds_kept_fits by auto
  from restore_all_restores[OF separate_files_to_backup this] obtain restored where r:
    "restore_all dir ?fps tree' = (True, restored)"
    "\<forall>f \<in> set ?fps. \<forall>n. lookup dir (path_of f) = Some n \<longrightarrow>
        lookup restored (path_of f) = Some n"
    by blast
  have "\<forall>f \<in> set ?fps. \<forall>q c.
          lookup tree (path_of f @ q) = Some (File c) \<longrightarrow>
          lookup restored (path_of f @ q) = Some (File c)"
  proof (intro ballI allI impI)
    fix f q c assume f: "f \<in> set ?fps" and c: "lookup tree (path_of f @ q) = Some (File c)"
    from c obtain n where n: "lookup tree (path_of f) = Some n" "lookup n q = Some (File c)"
      by (auto simp: lookup_append split: option.splits)
    with dir(2) f have "lookup dir (path_of f) = Some n" by simp
    with r(2) f have "lookup restored (path_of f) = Some n" by blast
    with n(2) show "lookup restored (path_of f @ q) = Some (File c)"
      by (simp add: lookup_append)
  qed
  with run r(1) show ?thesis by simp
qed

theorem snapshot_round_trip_witness:
  "create_backup (\<lambda>v. []) (JStr ''product'') ''20240101_120000'' shop_tree [] =
     (Inr ''field_modification_product_20240101_120000'',
      snd (create_backup (\<lambda>v. []) (JStr ''product'') ''20240101_120000'' shop_tree [])) \<and>
   ''..'' \<notin> set (path_of ''product'') \<and>
   kinds_kept shop_tree damaged_tree (path_of ''src/main/java/com/vira/product'') \<and>
   kinds_kept shop_tree damaged_tree (path_of ''src/main/resources/db/migration'') \<and>
   lookup damaged_tree (path_of ''src/main/java/com/vira/product/model/Product.java'') =
     Some (File ''broken'') \<and>
   lookup damaged_tree (path_of ''src/main/resources/db/migration/V1__create_products.sql'') = None \<and>
   (\<exists>restored.
      restore_backup ''field_modification_product_20240101_120000'' damaged_tree
        (snd (create_backup (\<lambda>v. []) (JStr ''product'') ''20240101_120000'' shop_tree [])) = (True, restored) \<and>
      lookup restored (path_of ''src/main/java/com/vira/product/model/Product.java'') =
        Some (File ''public class Product {}'') \<and>
      lookup restored (path_of ''src/main/resources/db/migration/V1__create_products.sql'') =
        Some (File ''CREATE TABLE products (id BIGSERIAL);''))"
proof -
  have made: "create_backup (\<lambda>v. []) (JStr ''product'') ''20240101_120000'' shop_tree [] =
     (Inr ''field_modification_product_20240101_120000'',
      snd (create_backup (\<lambda>v. []) (JStr ''product'') ''20240101_120000'' shop_tree []))"
    by code_simp
  have plain: "''..'' \<notin> set (path_of ''product'')" by code_simp
  have kept: "\<forall>f \<in> set (files_to_backup ''product''). kinds_kept shop_tree damaged_tree (path_of f)"
    by code_simp
  have k1: "kinds_kept shop_tree damaged_tree (path_of ''src/main/java/com/vira/product'')"
    by code_simp
  have k2: "kinds_kept shop_tree damaged_tree (path_of ''src/main/resources/db/migration'')"
    by code_simp
  have d1: "lookup damaged_tree (path_of ''src/main/java/com/vira/product/model/Product.java'') =
     Some (File ''broken'')" by code_simp
  have d2: "lookup damaged_tree (path_of ''src/main/resources/db/migration/V1__create_products.sql'') = None"
    by code_simp
  have f1: "''src/main/java/com/vira/product'' \<in> set (files_to_backup ''product'')"
    and f2: "''src/main/resources/db/migration'' \<in> set (files_to_backup ''product'')"
    by (simp_all add: files_to_backup_def)
  have p1: "path_of ''src/main/java/com/vira/product/model/Product.java'' =
              path_of ''src/main/java/com/vira/product'' @ [''model'', ''Product.java'']"
    by code_simp
  have p2: "path_of ''src/main/resources/db/migration/V1__create_products.sql'' =
              path_of ''src/main/resources/db/migration'' @ [''V1__create_products.sql'']"
    by code_simp
  have s1: "lookup shop_tree (path_of ''src/main/java/com/vira/product'' @ [''model'', ''Product.java'']) =
              Some (File ''public class Product {}'')" by code_simp
  have s2: "lookup shop_tree (path_of ''src/main/resources/db/migration'' @ [''V1__create_products.sql'']) =
              Some (File ''CREATE TABLE products (id BIGSERIAL);'')" by code_simp
  from snapshot_round_trip[of "\<lambda>v. []" "JStr ''product''", unfolded fstr.simps, OF made plain kept] obtain restored where r:
    "restore_backup ''field_modification_product_20240101_120000'' damaged_tree
        (snd (create_backup (\<lambda>v. []) (JStr ''product'') ''20240101_120000'' shop_tree [])) = (True, restored)"
    "\<forall>f \<in> set (files_to_backup ''product''). \<forall>q c.
              lookup shop_tree (path_of f @ q) = Some (File c) \<longrightarrow>
              lookup restored (path_of f @ q) = Some (File c)"
    by blast
  from r(2) f1 s1 have "lookup restored (path_of ''src/main/java/com/vira/product'' @ [''model'', ''Product.java'']) =
        Some (File ''public class Product {}'')" by blast
  moreover from r(2) f2 s2 have "lookup restored (path_of ''src/main/resources/db/migration'' @ [''V1__create_products.sql'']) =
        Some (File ''CREATE TABLE products (id BIGSERIAL);'')" by blast
  ultimately show ?thesis using made plain k1 k2 d1 d2 r(1) unfolding p1 p2 by blast
qed

section \<open>Runs of the field modifier\<close>

lemma ebind_eq_Inr: "ebind m f = Inr y \<longleftrightarrow> (\<exists>x. m = Inr x \<and> f x = Inr y)"
  by (cases m) simp_all

lemma decide_Proceed:
  assumes "decide repr env project_root = Inr (Proceed service_info ops an)"
  shows "structurally_valid repr env"
    and "request_safety repr env project_root = Inr []"
    and "\<not> option_set ''dry_run'' env"
    and "option_set ''auto_confirm'' env \<or> operator_answer env = Some True"
    and "\<exists>name. subscript service_info ''name'' = Inr name"
proof -
  from assms obtain data where data: "operations_file env = Inr data"
    and 1: "ebind (validate_operations_file repr data) (\<lambda>u.
     ebind (subscript data ''target_service'') (\<lambda>service_info.
     ebind (subscript data ''field_operations'') (\<lambda>listed.
     ebind (py_iter listed) (\<lambda>items.
     ebind (map_ok make_operation items) (\<lambda>field_operations.
     ebind (py_get data ''options'' (JObj [])) (\<lambda>options.
     ebind (analyze_field_operations repr service_info field_operations) (\<lambda>analysis.
     ebind (safety_errors repr (encoding env) field_operations service_info project_root) (\<lambda>validation_errors.
       if validation_errors \<noteq> [] then Inr (Stop False)
       else
     ebind (py_get options ''dry_run'' (JBool False)) (\<lambda>dry_run.
       if truthy dry_run then Inr (Stop True)
       else
     ebind (py_get options ''auto_confirm'' (JBool False)) (\<lambda>auto_confirm.
       if \<not> truthy auto_confirm
       then ebind (confirm_operations (stdin env)) (\<lambda>confirmed.
              if \<not> confirmed then Inr (Stop False)
              else Inr (Proceed service_info field_operations analysis))
       else Inr (Proceed service_info field_operations analysis))))))))))) =
       Inr (Proceed service_info ops an)"
    unfolding decide_def ebind_eq_Inr by blast
  from 1 obtain si listed items fops options analysis errs where
    v: "validate_operations_file repr data = Inr ()"
    and si: "subscript data ''target_service'' = Inr si"
    and listed: "subscript data ''field_operations'' = Inr listed"
    and items: "py_iter listed = Inr items"
    and fops: "map_ok make_operation items = Inr fops"
    and options: "py_get data ''options'' (JObj []) = Inr options"
    and analysis: "analyze_field_operations repr si fops = Inr analysis"
    and errs: "safety_errors repr (encoding env) fops si project_root = Inr errs"
    and 2: "(if errs \<noteq> [] then Inr (Stop False)
       else
     ebind (py_get options ''dry_run'' (JBool False)) (\<lambda>dry_run.
       if truthy dry_run then Inr (Stop True)
       else
     ebind (py_get options ''auto_confirm'' (JBool False)) (\<lambda>auto_confirm.
       if \<not> truthy auto_confirm
       then ebind (confirm_operations (stdin env)) (\<lambda>confirmed.
              if \<not> confirmed then Inr (Stop False)
              else Inr (Proceed si fops analysis))
       else Inr (Proceed si fops analysis)))) =
       Inr (Proceed service_info ops an)"
    unfolding ebind_eq_Inr by auto
  from 2 have e0: "errs = []" by (cases "errs = []") simp_all
  with 2 have "ebind (py_get options ''dry_run'' (JBool False)) (\<lambda>dry_run.
       if truthy dry_run then Inr (Stop True)
       else
     ebind (py_get options ''auto_confirm'' (JBool False)) (\<lambda>auto_confirm.
       if \<not> truthy auto_confirm
       then ebind (confirm_operations (stdin env)) (\<lambda>confirmed.
              if \<not> confirmed then Inr (Stop False)
              else Inr (Proceed si fops analysis))
       else Inr (Proceed si fops analysis))) =
       Inr (Proceed service_info ops an)" by simp
  then obtain dry where dry: "py_get options ''dry_run'' (JBool False) = Inr dry"
    and 3: "(if truthy dry then Inr (Stop True)
       else
     ebind (py_get options ''auto_confirm'' (JBool False)) (\<lambda>auto_confirm.
       if \<not> truthy auto_confirm
       then ebind (confirm_operations (stdin env)) (\<lambda>confirmed.
              if \<not> confirmed then Inr (Stop False)
              else Inr (Proceed si fops analysis))
       else Inr (Proceed si fops analysis))) =
       Inr (Proceed service_info ops an)"
    unfolding ebind_eq_Inr by blast
  from 3 have nd: "\<not> truthy dry" by (cases "truthy dry") simp_all
  with 3 have "ebind (py_get options ''auto_confirm'' (JBool False)) (\<lambda>auto_confirm.
       if \<not> truthy auto_confirm
       then ebind (confirm_operations (stdin env)) (\<lambda>confirmed.
              if \<not> confirmed then Inr (Stop False)
              else Inr (Proceed si fops analysis))
       else Inr (Proceed si fops analysis)) =
       Inr (Proceed service_info ops an)" by simp
  then obtain ac where ac: "py_get options ''auto_confirm'' (JBool False) = Inr ac"
    and 4: "(if \<not> truthy ac
       then ebind (confirm_operations (stdin env)) (\<lambda>confirmed.
              if \<not> confirmed then Inr (Stop False)
              else Inr (Proceed si fops analysis))
       else Inr (Proceed si fops analysis)) =
       Inr (Proceed service_info ops an)"
    unfolding ebind_eq_Inr by blast
  have eqs: "si = service_info"
    using 4 by (cases "truthy ac"; cases "confirm_operations (stdin env)")
               (auto split: if_splits)
  show "structurally_valid repr env" using data v by (simp add: structurally_valid_def)
  show "request_safety repr env project_root = Inr []"
    using data si listed items fops errs e0 by (simp add: request_safety_def)
  show "\<not> option_set ''dry_run'' env"
    using data options dry nd by (simp add: option_set_def request_options_def)
  show "option_set ''auto_confirm'' env \<or> operator_answer env = Some True"
    using 4 data options ac
    by (cases "truthy ac"; cases "confirm_operations (stdin env)")
       (auto simp: option_set_def request_options_def operator_answer_def split: if_splits)
  from analysis eqs show "\<exists>name. subscript service_info ''name'' = Inr name"
    unfolding analyze_field_operations_def ebind_eq_Inr by blast
qed

lemma process_changes:
  assumes "process_field_operations repr env w = (result, w')" and "w' \<noteq> w"
  shows "\<exists>service_info ops an. decide repr env (project w) = Inr (Proceed service_info ops an)"
proof (cases "decide repr env (project w)")
  case (Inl e)
  with assms show ?thesis by (simp add: process_field_operations_def)
next
  case (Inr d)
  with assms show ?thesis by (cases d) (simp_all add: process_field_operations_def)
qed

lemma safety_errors_stop:
  assumes "safety_reports_errors repr env project_root"
  shows "(\<exists>e. decide repr env project_root = Inl e) \<or>
         decide repr env project_root = Inr (Stop False)"
proof -
  from assms obtain errs where r: "request_safety repr env project_root = Inr errs"
    and ne: "errs \<noteq> []"
    by (auto simp: safety_reports_errors_def split: sum.splits)
  from r obtain data si listed items fops where
    "operations_file env = Inr data" "subscript data ''target_service'' = Inr si"
    "subscript data ''field_operations'' = Inr listed" "py_iter listed = Inr items"
    "map_ok make_operation items = Inr fops"
    "safety_errors repr (encoding env) fops si project_root = Inr errs"
    unfolding request_safety_def ebind_eq_Inr by blast
  with ne show ?thesis
    by (simp add: decide_def) (simp add: ebind_def split: sum.splits)
qed



text \<open>
  Claim C2. A run that changes anything (creates a snapshot, touches the project, or makes any
  call to the backup manager or to the application of the operations) has a structurally valid
  request, no safety error, no dry-run mark, and either the auto-confirm option or the
  confirmation of the operator. In particular a run with safety errors returns \<open>False\<close> and
  changes nothing, a dry run changes nothing, and a run that is not confirmed changes nothing.
\<close>

theorem no_change_before_the_gates:
  assumes "process_field_operations repr env w = (result, w')"
  shows "(w' \<noteq> w \<longrightarrow>
            structurally_valid repr env \<and>
            request_safety repr env (project w) = Inr [] \<and>
            \<not> option_set ''dry_run'' env \<and>
            (option_set ''auto_confirm'' env \<or> operator_answer env = Some True)) \<and>
         (safety_reports_errors repr env (project w) \<longrightarrow> w' = w \<and> \<not> result) \<and>
         (option_set ''dry_run'' env \<longrightarrow> w' = w) \<and>
         (\<not> option_set ''auto_confirm'' env \<and> operator_answer env \<noteq> Some True \<longrightarrow> w' = w)"
proof -
  have gates: "structurally_valid repr env \<and>
            request_safety repr env (project w) = Inr [] \<and>
            \<not> option_set ''dry_run'' env \<and>
            (option_set ''auto_confirm'' env \<or> operator_answer env = Some True)"
    if "w' \<noteq> w"
  proof -
    from process_changes[OF assms that] obtain service_info ops an where
      "decide repr env (project w) = Inr (Proceed service_info ops an)" by blast
    from decide_Proceed(1-4)[OF this] show ?thesis by blast
  qed
  have safety: "w' = w \<and> \<not> result" if "safety_reports_errors repr env (project w)"
    using safety_errors_stop[OF that] assms
    by (auto simp: process_field_operations_def)
  from gates show ?thesis using safety by blast
qed

theorem no_change_before_the_gates_witness:
  "fst (process_field_operations (\<lambda>v. []) failing_run shop_world) = False \<and>
   snd (process_field_operations (\<lambda>v. []) failing_run shop_world) \<noteq> shop_world \<and>
   structurally_valid (\<lambda>v. []) failing_run \<and>
   request_safety (\<lambda>v. []) failing_run shop_tree = Inr [] \<and>
   \<not> option_set ''dry_run'' failing_run \<and>
   option_set ''auto_confirm'' failing_run \<and>
   option_set ''dry_run'' dry_run \<and>
   process_field_operations (\<lambda>v. []) dry_run shop_world = (True, shop_world)"
proof -
  have ne: "snd (process_field_operations (\<lambda>v. []) failing_run shop_world) \<noteq> shop_world"
    by code_simp
  have f: "fst (process_field_operations (\<lambda>v. []) failing_run shop_world) = False"
    by code_simp
  have ac: "option_set ''auto_confirm'' failing_run" by code_simp
  have p: "project shop_world = shop_tree" by (simp add: shop_world_def)
  have dr: "option_set ''dry_run'' dry_run" by code_simp
  have t: "fst (process_field_operations (\<lambda>v. []) dry_run shop_world) = True" by code_simp
  from no_change_before_the_gates[OF surjective_pairing, of "\<lambda>v. []" failing_run shop_world] ne p
  have "structurally_valid (\<lambda>v. []) failing_run \<and>
        request_safety (\<lambda>v. []) failing_run shop_tree = Inr [] \<and>
        \<not> option_set ''dry_run'' failing_run"
    by simp
  moreover from no_change_before_the_gates[OF surjective_pairing, of "\<lambda>v. []" dry_run shop_world] dr
  have "snd (process_field_operations (\<lambda>v. []) dry_run shop_world) = shop_world" by simp
  with t have "process_field_operations (\<lambda>v. []) dry_run shop_world = (True, shop_world)"
    by (simp add: prod_eq_iff)
  ultimately show ?thesis using ne f ac dr by simp
qed

section \<open>The order of the rewriting\<close>

lemma then_apply_simps [simp]:
  "then_apply None f = None"
  "then_apply (Some (Inl e)) f = Some (Inl e)"
  "then_apply (Some (Inr s)) f = f s"
  by (simp_all add: then_apply_def)

lemma foldl_then_apply:
  "foldl (\<lambda>r op. then_apply r (step op)) r xs = then_apply r (py_for step xs)"
proof (induction xs arbitrary: r)
  case Nil
  show ?case
  proof (cases r)
    case None
    then show ?thesis by simp
  next
    case (Some v)
    then show ?thesis by (cases v) simp_all
  qed
next
  case (Cons x xs)
  show ?case
  proof (cases r)
    case None
    with Cons show ?thesis by simp
  next
    case (Some v)
    show ?thesis
    proof (cases v)
      case (Inl e)
      with Some Cons show ?thesis by simp
    next
      case (Inr s)
      show ?thesis
      proof (cases "step x s")
        case None
        with Some Inr Cons show ?thesis by simp
      next
        case (Some w)
        with \<open>r = Some v\<close> Inr Cons show ?thesis by (cases w) simp_all
      qed
    qed
  qed
qed

lemma py_for_in_list_order: "py_for step ops s = in_list_order step ops s"
  by (simp add: in_list_order_def foldl_then_apply)

lemma py_for_in_reverse_order: "py_for step (reversed ops) s = in_reverse_order step ops s"
  by (simp add: in_reverse_order_def reversed_def foldr_conv_foldl foldl_then_apply)

lemma py_for_returns:
  "\<exists>r. py_for (\<lambda>x s. Some (step x s)) xs s = Some r"
proof (induction xs arbitrary: s)
  case Nil
  then show ?case by simp
next
  case (Cons x xs)
  then show ?case by (cases "step x s") simp_all
qed

lemma model_and_dto_return:
  "\<exists>r. apply_model_operations repr g structure operations service_info = Some r"
  "\<exists>r. apply_dto_operations g structure operations service_info dto_type = Some r"
proof -
  show "\<exists>r. apply_model_operations repr g structure operations service_info = Some r"
  proof (cases "find_class_start service_info (file_lines structure) 0 (- 1)")
    case (Inl e)
    then show ?thesis by (simp add: apply_model_operations_def)
  next
    case (Inr class_start)
    from py_for_returns[of "model_step repr g class_start (file_fields structure)"
           "reversed operations"
           "(file_lines structure,
             if file_lines structure = [] then - 1 else last_line (file_fields structure))"]
    obtain r where "py_for (\<lambda>operation state.
                       Some (model_step repr g class_start (file_fields structure) operation state))
               (reversed operations)
               (file_lines structure,
                if file_lines structure = [] then - 1 else last_line (file_fields structure)) =
             Some r" by blast
    with Inr show ?thesis by (simp add: apply_model_operations_def text_of_def)
  qed
  from py_for_returns[of "dto_step g dto_type (file_fields structure)" "reversed operations"
         "(file_lines structure, last_line (file_fields structure))"]
  obtain r where r: "py_for (\<lambda>operation state.
                     Some (dto_step g dto_type (file_fields structure) operation state))
             (reversed operations)
             (file_lines structure, last_line (file_fields structure)) = Some r"
    by blast
  show "\<exists>r. apply_dto_operations g structure operations service_info dto_type = Some r"
  proof (cases r)
    case (Inl e)
    with r show ?thesis by (simp add: apply_dto_operations_def text_of_def)
  next
    case (Inr state)
    obtain lines last_field_line where s: "state = (lines, last_field_line)" by (cases state)
    from py_for_returns[of "dto_method_step g dto_type" operations
           "(lines, int (length lines) - 2)"]
    obtain r2 where "py_for (\<lambda>operation state. Some (dto_method_step g dto_type operation state))
               operations (lines, int (length lines) - 2) = Some r2" by blast
    with r Inr s show ?thesis by (simp add: apply_dto_operations_def text_of_def)
  qed
qed

text \<open>
  C9, as the code has it. The model file is rewritten by applying the operations in reverse
  order of the list. In a DTO file the field declarations are rewritten in reverse order,
  and then the accessors are inserted in list order. The service file is rewritten in list
  order. The rewriting of the model file and of a DTO file always returns.
\<close>

theorem rewriting_orders:
  "(find_class_start service_info (file_lines structure) 0 (- 1) = Inr class_start \<longrightarrow>
      apply_model_operations repr g structure operations service_info =
        text_of
          (in_reverse_order
             (\<lambda>operation state.
                Some (model_step repr g class_start (file_fields structure) operation state))
             operations
             (file_lines structure,
              if file_lines structure = [] then - 1 else last_line (file_fields structure)))) \<and>
   apply_dto_operations g structure operations service_info dto_type =
     text_of
       (then_apply
          (in_reverse_order
             (\<lambda>operation state.
                Some (dto_step g dto_type (file_fields structure) operation state))
             operations
             (file_lines structure, last_line (file_fields structure)))
          (\<lambda>(lines, last_field_line).
             in_list_order
               (\<lambda>operation state. Some (dto_method_step g dto_type operation state))
               operations (lines, int (length lines) - 2))) \<and>
   apply_service_operations structure operations service_info =
     joined (in_list_order (service_step service_info) operations (file_lines structure)) \<and>
   (\<exists>r. apply_model_operations repr g structure operations service_info = Some r) \<and>
   (\<exists>r. apply_dto_operations g structure operations service_info dto_type = Some r)"
proof (intro conjI impI)
  assume "find_class_start service_info (file_lines structure) 0 (- 1) = Inr class_start"
  then show "apply_model_operations repr g structure operations service_info =
        text_of
          (in_reverse_order
             (\<lambda>operation state.
                Some (model_step repr g class_start (file_fields structure) operation state))
             operations
             (file_lines structure,
              if file_lines structure = [] then - 1 else last_line (file_fields structure)))"
    by (simp only: apply_model_operations_def sum.case py_for_in_reverse_order)
next
  show "apply_dto_operations g structure operations service_info dto_type =
     text_of
       (then_apply
          (in_reverse_order
             (\<lambda>operation state.
                Some (dto_step g dto_type (file_fields structure) operation state))
             operations
             (file_lines structure, last_line (file_fields structure)))
          (\<lambda>(lines, last_field_line).
             in_list_order
               (\<lambda>operation state. Some (dto_method_step g dto_type operation state))
               operations (lines, int (length lines) - 2)))"
    by (simp only: apply_dto_operations_def py_for_in_reverse_order)
       (simp only: py_for_in_list_order)
next
  show "apply_service_operations structure operations service_info =
     joined (in_list_order (service_step service_info) operations (file_lines structure))"
    by (simp only: apply_service_operations_def py_for_in_list_order)
next
  show "\<exists>r. apply_model_operations repr g structure operations service_info = Some r"
    by (rule model_and_dto_return)
next
  show "\<exists>r. apply_dto_operations g structure operations service_info dto_type = Some r"
    by (rule model_and_dto_return)
qed

theorem rewriting_orders_witness:
  "find_class_start product_service (file_lines product_model) 0 (- 1) = Inr 0 \<and>
   apply_model_operations (\<lambda>v. []) no_generators product_model
     [remove_field ''id'', remove_field ''name''] product_service =
     Some (Inr (''public class Product {'' @ [CHR 0x0A] @ ''}'')) \<and>
   text_of
     (in_reverse_order
        (\<lambda>operation state.
           Some (model_step (\<lambda>v. []) no_generators 0 (file_fields product_model) operation state))
        [remove_field ''id'', remove_field ''name'']
        (file_lines product_model,
         if file_lines product_model = [] then - 1 else last_line (file_fields product_model))) =
     Some (Inr (''public class Product {'' @ [CHR 0x0A] @ ''}''))"
proof -
  have c: "find_class_start product_service (file_lines product_model) 0 (- 1) = Inr 0"
    by code_simp
  have m: "apply_model_operations (\<lambda>v. []) no_generators product_model
     [remove_field ''id'', remove_field ''name''] product_service =
     Some (Inr (''public class Product {'' @ [CHR 0x0A] @ ''}''))"
    by code_simp
  from rewriting_orders[of product_service product_model 0 "\<lambda>v. []" no_generators
         "[remove_field ''id'', remove_field ''name'']"] c m
  show ?thesis by simp
qed

text \<open>
  C9, as the specification has it, fails for the service file. With the operations
  \<open>[remove_sku, add_sku]\<close> the code first drops the references to the field and then
  inserts the check of the new field, which is in the result; in reverse order the check
  would be inserted first and dropped again. Nor does the reverse order keep the recorded
  line numbers valid: with the removals of \<open>name\<close> and \<open>id\<close>, in this order, the model
  file loses the declaration of \<open>id\<close> first, and then the line recorded for \<open>name\<close> is
  the closing brace, which is removed while the declaration of \<open>name\<close> stays.
\<close>

theorem service_file_is_rewritten_in_list_order:
  "apply_service_operations sku_service [remove_sku, add_sku] product_service =
     Some (Inr (join [CHR 0x0A] sku_checked)) \<and>
   joined (in_reverse_order (service_step product_service) [remove_sku, add_sku]
             (file_lines sku_service)) =
     Some (Inr (join [CHR 0x0A] (file_lines sku_service))) \<and>
   join [CHR 0x0A] sku_checked \<noteq> join [CHR 0x0A] (file_lines sku_service) \<and>
   apply_model_operations (\<lambda>v. []) no_generators product_model
     [remove_field ''name'', remove_field ''id''] product_service =
     Some (Inr (''public class Product {'' @ [CHR 0x0A] @ ''    private String name;''))"
  by code_simp

end
